theory Spec2Isabelle
  imports Main "HOL-Library.Multiset"
begin

section \<open>JavaScript values used by SchemaService\<close>

text \<open>
  The source is the object literal \<open>SchemaService\<close> of \<open>src/SchemaService.js\<close>. Its two
  data properties, \<open>schemas\<close> and \<open>currentVersions\<close>, are the mutable state; its methods
  read and write them through \<open>this\<close>.

  Strings are \<open>string\<close>: lists of code units, here the code units below 256.
\<close>

subsection \<open>What every object inherits\<close>

text \<open>
  A property read \<open>obj[k]\<close> that finds no own property goes on to the prototype. The
  objects of the registry are made by object literals, so their prototype is
  \<open>Object.prototype\<close>, taken here as the engine provides it: its members are the names
  below, all functions but \<open>__proto__\<close>, which is the accessor of the prototype link.
\<close>

definition objectPrototypeMembers :: "string list" where
  "objectPrototypeMembers =
     [''constructor'', ''__defineGetter__'', ''__defineSetter__'', ''hasOwnProperty'',
      ''__lookupGetter__'', ''__lookupSetter__'', ''isPrototypeOf'', ''propertyIsEnumerable'',
      ''toString'', ''valueOf'', ''__proto__'', ''toLocaleString'']"

definition inherited :: "string \<Rightarrow> bool" where
  "inherited k = (k \<in> set objectPrototypeMembers)"

text \<open>
  The values the methods read: \<open>Builtin n\<close> is the member \<open>n\<close> of \<open>Object.prototype\<close> as a
  value: a built-in function, or for \<open>__proto__\<close> the object \<open>Object.prototype\<close> itself.
\<close>

type_synonym 'v jsobject = "(string \<times> 'v) list"

type_synonym schema = "string jsobject"

datatype jsval = Undefined | Null | Str string | SchemaObj schema | Builtin string

definition truthy :: "jsval \<Rightarrow> bool" where
  "truthy v = (case v of Undefined \<Rightarrow> False | Null \<Rightarrow> False | Str s \<Rightarrow> s \<noteq> []
               | SchemaObj obj \<Rightarrow> True | Builtin n \<Rightarrow> True)"

text \<open>The text of a built-in function, as the engine prints it.\<close>

definition builtinToString :: "string \<Rightarrow> string" where
  "builtinToString n =
     (if n = ''__proto__'' then ''[object Object]''
      else ''function '' @ (if n = ''constructor'' then ''Object'' else n)
           @ ''() { [native code] }'')"

text \<open>Conversion to a string, in a template literal and in a property key.\<close>

definition ToString :: "jsval \<Rightarrow> string" where
  "ToString v = (case v of Undefined \<Rightarrow> ''undefined'' | Null \<Rightarrow> ''null'' | Str s \<Rightarrow> s
                 | SchemaObj obj \<Rightarrow> ''[object Object]'' | Builtin n \<Rightarrow> builtinToString n)"

text \<open>A read of key \<open>k\<close> on a plain object, given its own property of that name if any.\<close>

definition plainGet :: "string option \<Rightarrow> string \<Rightarrow> jsval" where
  "plainGet ownProperty k =
     (case ownProperty of
        Some s \<Rightarrow> Str s
      | None \<Rightarrow> if inherited k then Builtin k else Undefined)"

subsection \<open>Plain objects with their property order\<close>

text \<open>
  A plain object is the list of its own properties in the order in which
  \<open>Object.values\<close>, \<open>Object.entries\<close> and the spread \<open>{...o}\<close> enumerate them: keys that
  are array indices first, in ascending numeric order, then the other keys in the order
  of their creation.
\<close>

definition is_digit :: "char \<Rightarrow> bool" where
  "is_digit c = (48 \<le> (of_char c :: nat) \<and> (of_char c :: nat) \<le> 57)"

definition digits_value :: "string \<Rightarrow> int" where
  "digits_value k = foldl (\<lambda>n c. 10 * n + ((of_char c :: int) - 48)) 0 k"

text \<open>A key is an array index when it is the canonical decimal form of a number up to \<open>2^32 - 2\<close>.\<close>

definition array_index :: "string \<Rightarrow> int option" where
  "array_index k =
     (if k \<noteq> [] \<and> list_all is_digit k \<and> (hd k \<noteq> CHR ''0'' \<or> length k = 1)
         \<and> digits_value k \<le> 4294967294
      then Some (digits_value k) else None)"

definition Object_get :: "'v jsobject \<Rightarrow> string \<Rightarrow> 'v option" where
  "Object_get obj k = map_of obj k"

fun insert_index :: "int \<Rightarrow> string \<times> 'v \<Rightarrow> 'v jsobject \<Rightarrow> 'v jsobject" where
  "insert_index n kv [] = [kv]"
| "insert_index n kv (p # rest) =
     (case array_index (fst p) of
        Some m \<Rightarrow> if m < n then p # insert_index n kv rest else kv # p # rest
      | None \<Rightarrow> kv # p # rest)"

text \<open>
  Defining the own property \<open>k\<close>, as an object literal does for \<open>[k]: v\<close>: an existing
  property keeps its place and takes the new value; a new array-index key goes to its
  numeric place; any other new key goes last.
\<close>

definition Object_set :: "'v jsobject \<Rightarrow> string \<Rightarrow> 'v \<Rightarrow> 'v jsobject" where
  "Object_set obj k v =
     (if k \<in> fst ` set obj then map (\<lambda>p. if fst p = k then (k, v) else p) obj
      else case array_index k of
             Some n \<Rightarrow> insert_index n (k, v) obj
           | None \<Rightarrow> obj @ [(k, v)])"

text \<open>
  The assignment \<open>obj[k] = v\<close> on a plain object. It defines the own property, except for
  the key \<open>__proto__\<close> that is not an own property: that assignment reaches the accessor
  of \<open>Object.prototype\<close> and adds no property (it is ignored for a value that is not an
  object, and replaces the prototype link, which nothing reads afterwards, for one that
  is).
\<close>

definition Object_assign :: "'v jsobject \<Rightarrow> string \<Rightarrow> 'v \<Rightarrow> 'v jsobject" where
  "Object_assign obj k v =
     (if k = ''__proto__'' \<and> k \<notin> fst ` set obj then obj else Object_set obj k v)"

text \<open>The read \<open>obj[k]\<close> on a plain object whose values are strings.\<close>

definition Object_lookup :: "string jsobject \<Rightarrow> string \<Rightarrow> jsval" where
  "Object_lookup obj k = plainGet (Object_get obj k) k"

definition Object_values :: "'v jsobject \<Rightarrow> 'v list" where
  "Object_values obj = map snd obj"

definition Object_entries :: "'v jsobject \<Rightarrow> (string \<times> 'v) list" where
  "Object_entries obj = obj"

subsection \<open>Enumerating a value\<close>

text \<open>
  \<open>Object.values\<close>, \<open>Object.entries\<close> and the spread enumerate the own enumerable
  properties: of a schema its fields, of a string its code units under their indices,
  of a built-in object none. \<open>Object.values\<close> of \<open>undefined\<close> or \<open>null\<close> throws a
  \<open>TypeError\<close> (\<open>None\<close>); the spread of either copies nothing.
\<close>

function decimal :: "nat \<Rightarrow> string" where
  "decimal n = (if n < 10 then [char_of (48 + n)]
                else decimal (n div 10) @ [char_of (48 + n mod 10)])"
  by pat_completeness auto
termination
  by (relation "measure id") auto

declare decimal.simps [simp del]

definition stringEntries :: "string \<Rightarrow> schema" where
  "stringEntries s = map (\<lambda>i. (decimal i, [s ! i])) [0..<length s]"

definition ownEnumerable :: "jsval \<Rightarrow> schema" where
  "ownEnumerable v = (case v of Undefined \<Rightarrow> [] | Null \<Rightarrow> []
                      | Str s \<Rightarrow> stringEntries s
                      | SchemaObj obj \<Rightarrow> Object_entries obj
                      | Builtin n \<Rightarrow> [])"

definition valuesOf :: "jsval \<Rightarrow> string list option" where
  "valuesOf v = (case v of Undefined \<Rightarrow> None | Null \<Rightarrow> None
                 | _ \<Rightarrow> Some (Object_values (ownEnumerable v)))"

definition spread :: "jsval \<Rightarrow> schema" where
  "spread v = ownEnumerable v"

subsection \<open>Sets, arrays and strings\<close>

text \<open>A \<open>Set\<close> holds each element once, in the order of first insertion.\<close>

type_synonym 'a jsset = "'a list"

definition Set_add :: "'a jsset \<Rightarrow> 'a \<Rightarrow> 'a jsset" where
  "Set_add S x = (if x \<in> set S then S else S @ [x])"

definition Set_new :: "'a list \<Rightarrow> 'a jsset" where
  "Set_new xs = fold (\<lambda>x S. Set_add S x) xs []"

definition Set_has :: "'a jsset \<Rightarrow> 'a \<Rightarrow> bool" where
  "Set_has S x = (x \<in> set S)"

definition Set_size :: "'a jsset \<Rightarrow> nat" where
  "Set_size S = length S"

text \<open>
  A row is an array whose elements may be \<open>undefined\<close> (\<open>None\<close>); reading past its end
  gives \<open>undefined\<close> as well.
\<close>

definition Array_get :: "'v option list \<Rightarrow> nat \<Rightarrow> 'v option" where
  "Array_get xs i = (if i < length xs then xs ! i else None)"

text \<open>
  \<open>String.prototype.trim\<close> removes white space and line terminators from both ends;
  below 256 these are TAB, LF, VT, FF, CR, SP and NBSP.
\<close>

definition is_ws :: "char \<Rightarrow> bool" where
  "is_ws c = ((of_char c :: nat) \<in> {9, 10, 11, 12, 13, 32, 160})"

definition trim :: "string \<Rightarrow> string" where
  "trim s = rev (dropWhile is_ws (rev (dropWhile is_ws s)))"

section \<open>The registry and its methods\<close>

text \<open>
  \<open>schemas\<close> maps a sheet name to the object that holds the sheet's versions. That object
  has its own properties, the versions, and a prototype link: \<open>Object.prototype\<close> at
  first (\<open>None\<close>), and the schema \<open>s\<close> after the assignment \<open>versions['__proto__'] = s\<close> has
  reached the accessor.
\<close>

record versions =
  own :: "string \<rightharpoonup> schema"
  proto :: "schema option"

record registry =
  schemas :: "string \<rightharpoonup> versions"
  currentVersions :: "string \<rightharpoonup> string"

text \<open>
  The read \<open>versions[k]\<close>: the own property; else the property \<open>k\<close> of the schema that
  is the prototype, a header label; else what \<open>Object.prototype\<close> gives, where
  \<open>__proto__\<close> reads the prototype link.
\<close>

definition versionLookup :: "versions \<Rightarrow> string \<Rightarrow> jsval" where
  "versionLookup vs k =
     (case own vs k of
        Some s \<Rightarrow> SchemaObj s
      | None \<Rightarrow>
          (case proto vs of
             Some p \<Rightarrow>
               (case Object_get p k of
                  Some label \<Rightarrow> Str label
                | None \<Rightarrow> if k = ''__proto__'' then SchemaObj p
                          else if inherited k then Builtin k else Undefined)
           | None \<Rightarrow> if inherited k then Builtin k else Undefined))"

text \<open>
  The assignment \<open>versions[k] = s\<close>: it defines the own property \<open>k\<close>, except that for
  \<open>__proto__\<close>, when neither the object nor the schema that is its prototype has a property
  of that name, it reaches the accessor and replaces the prototype link.
\<close>

definition versionStore :: "versions \<Rightarrow> string \<Rightarrow> schema \<Rightarrow> versions" where
  "versionStore vs k s =
     (if k = ''__proto__'' \<and> own vs k = None
         \<and> (case proto vs of None \<Rightarrow> True | Some p \<Rightarrow> Object_get p k = None)
      then vs \<lparr> proto := Some s \<rparr>
      else vs \<lparr> own := (own vs)(k \<mapsto> s) \<rparr>)"

text \<open>
  The read \<open>this.schemas[sheetName]\<close>: the sheet's versions, or a member of
  \<open>Object.prototype\<close>, or \<open>undefined\<close>.
\<close>

datatype table = TUndefined | TVersions versions | TBuiltin string

definition tableGet :: "registry \<Rightarrow> string \<Rightarrow> table" where
  "tableGet this sheetName =
     (case schemas this sheetName of
        Some vs \<Rightarrow> TVersions vs
      | None \<Rightarrow> if inherited sheetName then TBuiltin sheetName else TUndefined)"

text \<open>
  A read on a built-in object. \<open>Object.prototype\<close> has its members and no prototype. A
  built-in function has the properties the engine gives it, among the names below, and
  no others; what a read of one of those names gives is the engine's, and is not
  modelled (\<open>None\<close>).
\<close>

definition functionMembers :: "string list" where
  "functionMembers =
     objectPrototypeMembers @
     [''length'', ''name'', ''prototype'', ''arguments'', ''caller'', ''apply'', ''bind'', ''call'',
      ''assign'', ''create'', ''defineProperties'', ''defineProperty'', ''entries'', ''freeze'',
      ''fromEntries'', ''getOwnPropertyDescriptor'', ''getOwnPropertyDescriptors'',
      ''getOwnPropertyNames'', ''getOwnPropertySymbols'', ''getPrototypeOf'', ''groupBy'',
      ''hasOwn'', ''is'', ''isExtensible'', ''isFrozen'', ''isSealed'', ''keys'',
      ''preventExtensions'', ''seal'', ''setPrototypeOf'', ''values'']"

definition builtinGet :: "string \<Rightarrow> string \<Rightarrow> jsval option" where
  "builtinGet n k =
     (if n = ''__proto__''
      then Some (if k = ''__proto__'' then Null else if inherited k then Builtin k else Undefined)
      else if k \<in> set functionMembers then None else Some Undefined)"

text \<open>The read \<open>this.schemas[sheetName][k]\<close> once the sheet's entry has been found.\<close>

definition tableRead :: "table \<Rightarrow> string \<Rightarrow> jsval option" where
  "tableRead t k =
     (case t of
        TUndefined \<Rightarrow> Some Undefined
      | TVersions vs \<Rightarrow> Some (versionLookup vs k)
      | TBuiltin n \<Rightarrow> builtinGet n k)"

text \<open>
  Every \<open>throw new Error(msg)\<close> of the source is \<open>Error msg\<close>; the engine throws a
  \<open>TypeError\<close>. The specification calls the first kind \<open>NotFoundError\<close>.

  A call returns a value, throws, or leaves what is modelled: it read an engine-defined
  property of a built-in function, or it wrote to a built-in object. A method takes the
  registry (\<open>this\<close>) and gives its completion together with the registry as the call
  leaves it: a thrown error does not undo an assignment made before it. With the
  completion \<open>Unmodelled\<close> the registry is given as it was and stands for nothing: the
  theorems below say nothing of such a call, and since only such a call writes to
  \<open>Object.prototype\<close>, every modelled call finds it as the engine provides it.
\<close>

datatype error = Error string | TypeError string


datatype 'a completion = Returns 'a | Throws error | Unmodelled

type_synonym 'a outcome = "'a completion \<times> registry"

definition getSchema :: "string \<Rightarrow> registry \<Rightarrow> jsval outcome" where
  "getSchema sheetName this =
     (let version = plainGet (currentVersions this sheetName) sheetName in
      if \<not> truthy version \<or> tableGet this sheetName = TUndefined
      then (Throws (Error (''Schema not found for sheet: '' @ sheetName)), this)
      else (case tableRead (tableGet this sheetName) (ToString version) of
              None \<Rightarrow> (Unmodelled, this)
            | Some v \<Rightarrow> (Returns v, this)))"

text \<open>\<open>_getReverseSchema\<close>: the guard returns the empty object for a falsy schema.\<close>

definition getReverseSchema :: "jsval \<Rightarrow> string jsobject" where
  "getReverseSchema schema =
     (if \<not> truthy schema then []
      else fold (\<lambda>(field, header) reverse. Object_assign reverse header field)
                (ownEnumerable schema) [])"

text \<open>The callback of \<open>headers.forEach\<close> in \<open>mapRowToObject\<close>.\<close>

definition mapHeader ::
  "string jsobject \<Rightarrow> 'v option list \<Rightarrow> nat \<times> string \<Rightarrow> 'v jsobject \<Rightarrow> 'v jsobject" where
  "mapHeader reverseSchema rowData ih mappedData =
     (let fieldName = Object_lookup reverseSchema (trim (snd ih)) in
      case Array_get rowData (fst ih) of
        None \<Rightarrow> mappedData
      | Some v \<Rightarrow> if truthy fieldName then Object_assign mappedData (ToString fieldName) v
                  else mappedData)"

definition mapRowToObject ::
  "string \<Rightarrow> string list \<Rightarrow> 'v option list \<Rightarrow> registry \<Rightarrow> 'v jsobject outcome" where
  "mapRowToObject sheetName headers rowData this =
     (case getSchema sheetName this of
        (Throws e, this') \<Rightarrow> (Throws e, this')
      | (Unmodelled, this') \<Rightarrow> (Unmodelled, this')
      | (Returns schema, this') \<Rightarrow>
          (Returns (fold (mapHeader (getReverseSchema schema) rowData)
                         (enumerate 0 headers) []), this'))"

definition getHeaders :: "string \<Rightarrow> registry \<Rightarrow> string list outcome" where
  "getHeaders sheetName this =
     (case getSchema sheetName this of
        (Throws e, this') \<Rightarrow> (Throws e, this')
      | (Unmodelled, this') \<Rightarrow> (Unmodelled, this')
      | (Returns schema, this') \<Rightarrow>
          (case valuesOf schema of
             None \<Rightarrow> (Throws (TypeError ''Cannot convert undefined or null to object''), this')
           | Some hs \<Rightarrow> (Returns hs, this')))"

record schema_diff =
  missing :: "string list"
  extra :: "string list"
  hasChanges :: bool

definition detectSchemaChanges :: "string \<Rightarrow> string list \<Rightarrow> registry \<Rightarrow> schema_diff outcome" where
  "detectSchemaChanges sheetName actualHeaders this =
     (case getHeaders sheetName this of
        (Throws e, this') \<Rightarrow> (Throws e, this')
      | (Unmodelled, this') \<Rightarrow> (Unmodelled, this')
      | (Returns expectedHeaders, this') \<Rightarrow>
          (let actualSet = Set_new (map trim actualHeaders);
               expectedSet = Set_new expectedHeaders
           in (Returns \<lparr> missing = filter (\<lambda>h. \<not> Set_has actualSet h) expectedHeaders,
                         extra = filter (\<lambda>h. \<not> Set_has expectedSet (trim h)) actualHeaders,
                         hasChanges = (Set_size actualSet \<noteq> Set_size expectedSet
                                       \<or> list_ex (\<lambda>h. \<not> Set_has expectedSet h) actualSet) \<rparr>,
               this')))"

text \<open>
  What a mutator writes outside the registry: a console line, and the event handed to
  \<open>EventBus.emit\<close>. \<open>EventBus\<close> is a global that the source does not define: it is
  \<open>undefined\<close>, in which case nothing is emitted, or \<open>null\<close>, which passes the \<open>typeof\<close> test
  and makes the call throw, or an object whose \<open>emit\<close> returns or throws.
\<close>

record schema_event =
  ev_sheet :: string
  ev_oldVersion :: jsval
  ev_newVersion :: string
  ev_added :: string

datatype effect = ConsoleLog string | Emit string schema_event

datatype eventBus = BusUndefined | BusNull | Bus "string \<Rightarrow> schema_event \<Rightarrow> error option"

definition emit :: "eventBus \<Rightarrow> string \<Rightarrow> schema_event \<Rightarrow> error option" where
  "emit bus name ev =
     (case bus of
        BusUndefined \<Rightarrow> None
      | BusNull \<Rightarrow> Some (TypeError ''Cannot read properties of null'')
      | Bus f \<Rightarrow> f name ev)"

definition emitted :: "eventBus \<Rightarrow> string \<Rightarrow> schema_event \<Rightarrow> effect list" where
  "emitted bus name ev = (case bus of BusUndefined \<Rightarrow> [] | _ \<Rightarrow> [Emit name ev])"

definition addField ::
  "eventBus \<Rightarrow> string \<Rightarrow> string \<Rightarrow> string \<Rightarrow> string \<Rightarrow> registry \<Rightarrow> effect list outcome" where
  "addField eventBus sheetName fieldName headerName newVersion this =
     (case tableGet this sheetName of
        TUndefined \<Rightarrow> (Throws (Error (''Sheet schema not found: '' @ sheetName)), this)
      | TBuiltin n \<Rightarrow> (Unmodelled, this)
      | TVersions vs \<Rightarrow>
          (let currentVersion = plainGet (currentVersions this sheetName) sheetName;
               currentSchema = versionLookup vs (ToString currentVersion);
               this' = this \<lparr> schemas := (schemas this)
                         (sheetName \<mapsto> versionStore vs newVersion
                            (Object_set (spread currentSchema) fieldName headerName)) \<rparr>;
               line = ConsoleLog (''[SchemaService] Added field '' @ [CHR 0x27] @ fieldName
                                  @ [CHR 0x27] @ '' to '' @ sheetName
                                  @ '' schema version '' @ newVersion);
               ev = \<lparr> ev_sheet = sheetName, ev_oldVersion = currentVersion,
                      ev_newVersion = newVersion, ev_added = fieldName \<rparr>
           in case emit eventBus ''SCHEMA_UPDATED'' ev of
                Some e \<Rightarrow> (Throws e, this')
              | None \<Rightarrow> (Returns (line # emitted eventBus ''SCHEMA_UPDATED'' ev), this')))"

text \<open>
  The assignment \<open>this.currentVersions[sheetName] = version\<close> defines the own property,
  except for the sheet name \<open>__proto__\<close> that is not an own property: there it reaches the
  accessor, which ignores a string.
\<close>

definition setVersion :: "string \<Rightarrow> string \<Rightarrow> registry \<Rightarrow> effect list outcome" where
  "setVersion sheetName version this =
     (if tableGet this sheetName = TUndefined
      then (Throws (Error (''Schema version '' @ version @ '' not found for sheet: ''
                           @ sheetName)), this)
      else case tableRead (tableGet this sheetName) version of
             None \<Rightarrow> (Unmodelled, this)
           | Some v \<Rightarrow>
               if \<not> truthy v
               then (Throws (Error (''Schema version '' @ version @ '' not found for sheet: ''
                                    @ sheetName)), this)
               else
                 (let oldVersion = plainGet (currentVersions this sheetName) sheetName;
                      this' = (if sheetName = ''__proto__'' \<and> currentVersions this sheetName = None
                               then this
                               else this \<lparr> currentVersions :=
                                             (currentVersions this)(sheetName \<mapsto> version) \<rparr>)
                  in (Returns [ConsoleLog (''[SchemaService] Updated '' @ sheetName
                                           @ '' schema from '' @ ToString oldVersion
                                           @ '' to '' @ version)],
                      this')))"

section \<open>Notions of the specification\<close>

text \<open>
  The drift report in the specification's words: the expected headers that no trimmed
  actual header equals, the actual headers whose trimmed form is not expected, and the
  two-clause test on the two sets.
\<close>

definition headerDrift :: "string list \<Rightarrow> string list \<Rightarrow> schema_diff" where
  "headerDrift expectedHeaders actualHeaders =
     \<lparr> missing = filter (\<lambda>h. h \<notin> trim ` set actualHeaders) expectedHeaders,
       extra = filter (\<lambda>h. trim h \<notin> set expectedHeaders) actualHeaders,
       hasChanges = (card (trim ` set actualHeaders) \<noteq> card (set expectedHeaders)
                     \<or> (\<exists>a \<in> trim ` set actualHeaders. a \<notin> set expectedHeaders)) \<rparr>"

text \<open>
  Position \<open>i\<close> writes the key \<open>k\<close> of the decoded row: what its trimmed header looks up is
  truthy and prints as \<open>k\<close>, and its value is present. Position \<open>i\<close> decides the key when no
  later position writes it.
\<close>

definition writes :: "string jsobject \<Rightarrow> 'v option list \<Rightarrow> string list \<Rightarrow> string \<Rightarrow> nat \<Rightarrow> bool" where
  "writes R row hs k i \<longleftrightarrow>
     truthy (Object_lookup R (trim (hs ! i))) \<and> ToString (Object_lookup R (trim (hs ! i))) = k
     \<and> Array_get row i \<noteq> None"

definition lastHit ::
  "string jsobject \<Rightarrow> 'v option list \<Rightarrow> string list \<Rightarrow> string \<Rightarrow> 'v \<Rightarrow> nat \<Rightarrow> bool" where
  "lastHit R row hs k v i \<longleftrightarrow>
     writes R row hs k i \<and> Array_get row i = Some v
     \<and> (\<forall>j. i < j \<and> j < length hs \<longrightarrow> \<not> writes R row hs k j)"

text \<open>A version is stored when it is an own entry of the version set of a known table.\<close>

definition versionStored :: "registry \<Rightarrow> string \<Rightarrow> string \<Rightarrow> bool" where
  "versionStored this sheetName version =
     (case schemas this sheetName of
        None \<Rightarrow> False
      | Some vs \<Rightarrow> own vs version \<noteq> None)"





subsection \<open>Registries used as examples\<close>

text \<open>
  The schema of the behaviour-score sheet as the source initialises it. The sheet's
  name and its initial version come from \<open>CONFIG\<close>, which is not part of the source;
  \<open>BehaviorScores\<close> and \<open>v1\<close> stand for them.
\<close>

definition behaviorSchema :: schema where
  "behaviorSchema = [(''behavior'', ''Behavior''), (''score'', ''Score''),
                     (''category'', ''Category''), (''lastUpdated'', ''Last Updated'')]"

definition oneVersion :: "string \<Rightarrow> schema \<Rightarrow> versions" where
  "oneVersion version s = \<lparr> own = [version \<mapsto> s], proto = None \<rparr>"

definition behaviorRegistry :: registry where
  "behaviorRegistry =
     \<lparr> schemas = [''BehaviorScores'' \<mapsto> oneVersion ''v1'' behaviorSchema],
       currentVersions = [''BehaviorScores'' \<mapsto> ''v1''] \<rparr>"

text \<open>A registry whose second header label ends in a space.\<close>

definition paddedSchema :: schema where
  "paddedSchema = [(''behavior'', ''Behavior''), (''score'', ''Score '')]"

definition paddedRegistry :: registry where
  "paddedRegistry =
     \<lparr> schemas = [''BehaviorScores'' \<mapsto> oneVersion ''v1'' paddedSchema],
       currentVersions = [''BehaviorScores'' \<mapsto> ''v1''] \<rparr>"

text \<open>A registry whose active-version pointer names a version that was never stored.\<close>

definition danglingRegistry :: registry where
  "danglingRegistry =
     \<lparr> schemas = [''BehaviorScores'' \<mapsto> oneVersion ''v1'' behaviorSchema],
       currentVersions = [''BehaviorScores'' \<mapsto> ''v2''] \<rparr>"

text \<open>
  The registry reached from \<open>behaviorRegistry\<close> by \<open>addField\<close> with the empty string as
  the new version, followed by \<open>setVersion\<close> to that version.
\<close>

definition emptyVersionRegistry :: registry where
  "emptyVersionRegistry =
     snd (setVersion ''BehaviorScores'' ''''
       (snd (addField BusUndefined ''BehaviorScores'' ''streak'' ''Streak'' '''' behaviorRegistry)))"

text \<open>The registry whose one sheet has the schema \<open>s\<close> as its only version.\<close>

definition registryOf :: "schema \<Rightarrow> registry" where
  "registryOf s =
     \<lparr> schemas = [''BehaviorScores'' \<mapsto> oneVersion ''v1'' s],
       currentVersions = [''BehaviorScores'' \<mapsto> ''v1''] \<rparr>"


section \<open>Properties of the JavaScript values\<close>

lemma map_of_replace:
  "map_of (map (\<lambda>p. if fst p = k then (k, v) else p) obj) x =
     (if x = k \<and> k \<in> fst ` set obj then Some v else map_of obj x)"
  by (induction obj) (auto simp: rev_image_eqI)

lemma map_of_insert_index:
  "k \<notin> fst ` set obj \<Longrightarrow>
   map_of (insert_index n (k, v) obj) x = (if x = k then Some v else map_of obj x)"
  by (induction obj) (auto split: option.splits)

lemma map_of_snoc:
  "k \<notin> fst ` set obj \<Longrightarrow>
   map_of (obj @ [(k, v)]) x = (if x = k then Some v else map_of obj x)"
  by (induction obj) auto

lemma Object_get_set:
  "Object_get (Object_set obj k v) x = (if x = k then Some v else Object_get obj x)"
  unfolding Object_get_def Object_set_def
  by (simp add: map_of_replace map_of_insert_index map_of_snoc split: option.splits
      del: map_of_append)

lemma Object_get_empty: "Object_get [] k = None"
  by (simp add: Object_get_def)

lemma Object_values_set: "h \<in> set (Object_values (Object_set obj f h))"
proof -
  have "map_of (Object_set obj f h) f = Some h"
    using Object_get_set [of obj f h f] by (simp add: Object_get_def)
  then have "(f, h) \<in> set (Object_set obj f h)" by (rule map_of_SomeD)
  then show ?thesis by (force simp: Object_values_def)
qed

lemma set_Set_new_aux: "set (fold (\<lambda>x S. Set_add S x) xs S0) = set S0 \<union> set xs"
  by (induction xs arbitrary: S0) (auto simp: Set_add_def)

lemma distinct_Set_new_aux: "distinct S0 \<Longrightarrow> distinct (fold (\<lambda>x S. Set_add S x) xs S0)"
  by (induction xs arbitrary: S0) (auto simp: Set_add_def)

lemma set_Set_new: "set (Set_new xs) = set xs"
  by (simp add: Set_new_def set_Set_new_aux)

lemma Set_has_new: "Set_has (Set_new xs) x = (x \<in> set xs)"
  by (simp add: Set_has_def set_Set_new)

lemma Set_size_new: "Set_size (Set_new xs) = card (set xs)"
proof -
  have "distinct (Set_new xs)"
    unfolding Set_new_def by (rule distinct_Set_new_aux) simp
  then have "length (Set_new xs) = card (set (Set_new xs))"
    by (simp add: distinct_card)
  then show ?thesis by (simp add: Set_size_def set_Set_new)
qed


lemma Object_get_assign:
  "Object_get (Object_assign obj k v) x =
     (if x = k \<and> (k \<noteq> ''__proto__'' \<or> k \<in> fst ` set obj) then Some v else Object_get obj x)"
  by (auto simp: Object_assign_def Object_get_set)

lemma Object_get_dom: "Object_get obj k = None \<longleftrightarrow> k \<notin> fst ` set obj"
  by (simp add: Object_get_def map_of_eq_None_iff)

lemma inherited_cases:
  "inherited k \<longleftrightarrow> k \<in> {''constructor'', ''__defineGetter__'', ''__defineSetter__'',
      ''hasOwnProperty'', ''__lookupGetter__'', ''__lookupSetter__'', ''isPrototypeOf'',
      ''propertyIsEnumerable'', ''toString'', ''valueOf'', ''__proto__'', ''toLocaleString''}"
  by (simp add: inherited_def objectPrototypeMembers_def)

lemma inherited_proto: "inherited ''__proto__''"
  by (simp add: inherited_def objectPrototypeMembers_def)

section \<open>Reading the registry\<close>

lemma getSchema_state: "snd (getSchema sheetName this) = this"
  by (simp add: getSchema_def Let_def split: option.splits)

lemma getHeaders_of_schema:
  "fst (getSchema sheetName this) = Returns (SchemaObj schema) \<Longrightarrow>
   getHeaders sheetName this = (Returns (Object_values schema), this)"
  using getSchema_state [of sheetName this]
  by (cases "getSchema sheetName this")
    (simp add: getHeaders_def valuesOf_def ownEnumerable_def Object_entries_def)

lemma getSchema_own:
  "currentVersions this sheetName = Some version \<Longrightarrow> version \<noteq> [] \<Longrightarrow>
   schemas this sheetName = Some vs \<Longrightarrow>
   getSchema sheetName this = (Returns (versionLookup vs version), this)"
  by (simp add: getSchema_def plainGet_def truthy_def tableGet_def tableRead_def ToString_def)

lemma getSchema_behaviorRegistry:
  "getSchema ''BehaviorScores'' behaviorRegistry = (Returns (SchemaObj behaviorSchema), behaviorRegistry)"
  by (simp add: getSchema_own [where version = "''v1''" and vs = "oneVersion ''v1'' behaviorSchema"]
      behaviorRegistry_def versionLookup_def oneVersion_def)

lemma getSchema_paddedRegistry:
  "getSchema ''BehaviorScores'' paddedRegistry = (Returns (SchemaObj paddedSchema), paddedRegistry)"
  by (simp add: getSchema_own [where version = "''v1''" and vs = "oneVersion ''v1'' paddedSchema"]
      paddedRegistry_def versionLookup_def oneVersion_def)

lemma trim_examples:
  "trim ''Behavior'' = ''Behavior''" "trim ''Score'' = ''Score''" "trim ''Score '' = ''Score''"
  "trim ''Category'' = ''Category''" "trim ''Last Updated'' = ''Last Updated''"
  "trim '' Score '' = ''Score''" "trim ''constructor'' = ''constructor''"
  by (simp_all add: trim_def is_ws_def)

subsection \<open>Resolving the active schema\<close>




subsection \<open>Drift detection\<close>

text \<open>
  C1 (amended). For a table with an active schema, \<open>detectSchemaChanges\<close> returns exactly
  the drift report of the specification: \<open>missing\<close> are the expected headers, in schema
  order, that are not in the set of trimmed actual headers; \<open>extra\<close> are the actual
  headers, untrimmed and in input order, whose trimmed form is not expected;
  \<open>hasChanges\<close> is the two-clause test on the sizes and on membership. When the actual
  headers are a permutation of the expected headers and no expected header has white
  space at either end, \<open>hasChanges\<close> is false.
\<close>

theorem detectSchemaChanges_exact:
  assumes "fst (getSchema sheetName this) = Returns (SchemaObj schema)"
  shows "detectSchemaChanges sheetName actualHeaders this
           = (Returns (headerDrift (Object_values schema) actualHeaders), this)
         \<and> (mset actualHeaders = mset (Object_values schema)
              \<and> (\<forall>h \<in> set (Object_values schema). trim h = h)
            \<longrightarrow> \<not> hasChanges (headerDrift (Object_values schema) actualHeaders))"
proof
  show "detectSchemaChanges sheetName actualHeaders this
           = (Returns (headerDrift (Object_values schema) actualHeaders), this)"
    by (simp add: detectSchemaChanges_def getHeaders_of_schema [OF assms] headerDrift_def
        Set_has_new Set_size_new list_ex_iff set_Set_new)
next
  show "mset actualHeaders = mset (Object_values schema)
              \<and> (\<forall>h \<in> set (Object_values schema). trim h = h)
            \<longrightarrow> \<not> hasChanges (headerDrift (Object_values schema) actualHeaders)"
  proof
    assume a: "mset actualHeaders = mset (Object_values schema)
              \<and> (\<forall>h \<in> set (Object_values schema). trim h = h)"
    then have s: "set actualHeaders = set (Object_values schema)"
      by (metis set_mset_mset)
    with a have "trim ` set actualHeaders = set (Object_values schema)"
      by force
    then show "\<not> hasChanges (headerDrift (Object_values schema) actualHeaders)"
      by (simp add: headerDrift_def)
  qed
qed

theorem detectSchemaChanges_exact_witness:
  "fst (getSchema ''BehaviorScores'' behaviorRegistry) = Returns (SchemaObj behaviorSchema)
   \<and> mset [''Score'', ''Last Updated'', ''Behavior'', ''Category'']
       = mset (Object_values behaviorSchema)
   \<and> map trim (Object_values behaviorSchema) = Object_values behaviorSchema
   \<and> detectSchemaChanges ''BehaviorScores''
         [''Score'', ''Last Updated'', ''Behavior'', ''Category''] behaviorRegistry
       = (Returns \<lparr> missing = [], extra = [], hasChanges = False \<rparr>, behaviorRegistry)"
proof -
  let ?actual = "[''Score'', ''Last Updated'', ''Behavior'', ''Category'']"
  have h: "fst (getSchema ''BehaviorScores'' behaviorRegistry) = Returns (SchemaObj behaviorSchema)"
    by (simp add: getSchema_behaviorRegistry)
  have p: "mset ?actual = mset (Object_values behaviorSchema)"
    by (simp add: Object_values_def behaviorSchema_def)
  have t: "\<forall>h \<in> set (Object_values behaviorSchema). trim h = h"
    by (simp add: Object_values_def behaviorSchema_def trim_examples)
  have m: "map trim (Object_values behaviorSchema) = Object_values behaviorSchema"
    using t by (simp add: map_idI)
  have d: "headerDrift (Object_values behaviorSchema) ?actual
             = \<lparr> missing = [], extra = [], hasChanges = False \<rparr>"
    using detectSchemaChanges_exact [OF h, of ?actual] p t
    by (simp add: headerDrift_def Object_values_def behaviorSchema_def trim_examples)
  show ?thesis
    using detectSchemaChanges_exact [OF h, of ?actual] h p m d by simp
qed

text \<open>
  The claim as stated fails where an expected header carries white space: the actual
  headers below are a permutation of the expected ones, and drift is reported.
\<close>

theorem detectSchemaChanges_permutation_counterexample:
  "fst (getHeaders ''BehaviorScores'' paddedRegistry) = Returns [''Behavior'', ''Score '']
   \<and> mset [''Score '', ''Behavior''] = mset [''Behavior'', ''Score '']
   \<and> fst (detectSchemaChanges ''BehaviorScores'' [''Score '', ''Behavior''] paddedRegistry)
       = Returns \<lparr> missing = [''Score ''], extra = [''Score ''], hasChanges = True \<rparr>"
  by (simp add: detectSchemaChanges_def getHeaders_def getSchema_paddedRegistry paddedSchema_def
      valuesOf_def ownEnumerable_def Object_entries_def Object_values_def Set_new_def Set_add_def Set_has_def Set_size_def trim_examples)

lemma getHeaders_state: "snd (getHeaders sheetName this) = this"
  using getSchema_state [of sheetName this]
  by (cases "getSchema sheetName this") (auto simp: getHeaders_def split: completion.splits option.splits)

lemma mapRowToObject_state: "snd (mapRowToObject sheetName headers rowData this) = this"
  using getSchema_state [of sheetName this]
  by (cases "getSchema sheetName this") (auto simp: mapRowToObject_def split: completion.splits)

lemma detectSchemaChanges_state: "snd (detectSchemaChanges sheetName actualHeaders this) = this"
  using getHeaders_state [of sheetName this]
  by (cases "getHeaders sheetName this") (auto simp: detectSchemaChanges_def Let_def split: completion.splits)

subsection \<open>Frame of the read operations\<close>

text \<open>
  C10. \<open>getSchema\<close>, \<open>getHeaders\<close>, \<open>mapRowToObject\<close> and \<open>detectSchemaChanges\<close> leave the
  registry exactly as they found it, for every registry and every input, whether they
  return a result or throw.
\<close>

theorem reads_leave_registry:
  "snd (getSchema sheetName this) = this
   \<and> snd (getHeaders sheetName this) = this
   \<and> snd (mapRowToObject sheetName headers rowData this) = this
   \<and> snd (detectSchemaChanges sheetName headers this) = this"
  by (simp add: getSchema_state getHeaders_state mapRowToObject_state detectSchemaChanges_state)

theorem reads_leave_registry_witness:
  "snd (getSchema ''BehaviorScores'' behaviorRegistry) = behaviorRegistry
   \<and> snd (getHeaders ''BehaviorScores'' behaviorRegistry) = behaviorRegistry
   \<and> snd (mapRowToObject ''BehaviorScores'' [''Score'', ''Mood''] [Some ''5'', Some ''''] behaviorRegistry)
       = behaviorRegistry
   \<and> snd (detectSchemaChanges ''BehaviorScores'' [''Score'', ''Mood''] behaviorRegistry)
       = behaviorRegistry
   \<and> snd (getHeaders ''BehaviorScores'' danglingRegistry) = danglingRegistry
   \<and> fst (getHeaders ''BehaviorScores'' danglingRegistry)
       = Throws (TypeError ''Cannot convert undefined or null to object'')"
proof -
  have "fst (getHeaders ''BehaviorScores'' danglingRegistry)
       = Throws (TypeError ''Cannot convert undefined or null to object'')"
    by (simp add: getHeaders_def getSchema_def danglingRegistry_def oneVersion_def plainGet_def truthy_def tableGet_def tableRead_def ToString_def versionLookup_def inherited_cases valuesOf_def)
  then show ?thesis
    using reads_leave_registry [of "''BehaviorScores''" behaviorRegistry "[''Score'', ''Mood'']"
        "[Some ''5'', Some '''']"]
      reads_leave_registry [of "''BehaviorScores''" danglingRegistry "[]" "[] :: string option list"]
    by simp
qed

section \<open>Changing the registry\<close>

lemma addField_unknown:
  "schemas this sheetName = None \<Longrightarrow> \<not> inherited sheetName \<Longrightarrow>
   addField eventBus sheetName fieldName headerName newVer this
     = (Throws (Error (''Sheet schema not found: '' @ sheetName)), this)"
  by (simp add: addField_def tableGet_def)

lemma addField_known:
  assumes "schemas this sheetName = Some vs"
  shows "snd (addField eventBus sheetName fieldName headerName newVer this)
           = this \<lparr> schemas := (schemas this)
               (sheetName \<mapsto> versionStore vs newVer
                  (Object_set (spread (versionLookup vs
                     (ToString (plainGet (currentVersions this sheetName) sheetName))))
                     fieldName headerName)) \<rparr>"
    and "fst (addField eventBus sheetName fieldName headerName newVer this)
           = (case emit eventBus ''SCHEMA_UPDATED''
                     \<lparr> ev_sheet = sheetName,
                       ev_oldVersion = plainGet (currentVersions this sheetName) sheetName,
                       ev_newVersion = newVer, ev_added = fieldName \<rparr> of
                Some e \<Rightarrow> Throws e
              | None \<Rightarrow> Returns (ConsoleLog (''[SchemaService] Added field '' @ [CHR 0x27]
                                    @ fieldName @ [CHR 0x27] @ '' to '' @ sheetName
                                    @ '' schema version '' @ newVer)
                         # emitted eventBus ''SCHEMA_UPDATED''
                             \<lparr> ev_sheet = sheetName,
                               ev_oldVersion = plainGet (currentVersions this sheetName) sheetName,
                               ev_newVersion = newVer, ev_added = fieldName \<rparr>))"
  using assms by (simp_all add: addField_def tableGet_def Let_def split: option.splits)

lemma addField_pointers:
  "currentVersions (snd (addField eventBus sheetName fieldName headerName newVer this))
     = currentVersions this"
  by (simp add: addField_def Let_def split: table.splits option.splits)

lemma setVersion_throws_state:
  "fst (setVersion sheetName version this) = Throws e \<Longrightarrow>
   snd (setVersion sheetName version this) = this"
  by (simp add: setVersion_def Let_def split: option.splits if_splits)

subsection \<open>Failure and the registry\<close>

text \<open>
  C8 (amended). \<open>setVersion\<close> is atomic: when it throws, the registry is what it was.
  \<open>addField\<close> throws its not-found error for an unknown table, one whose name is not a
  member of \<open>Object.prototype\<close> either, before any assignment. The only failure of
  \<open>addField\<close> that leaves a changed registry is an error thrown by the call of
  \<open>EventBus.emit\<close>, after the new version has been stored: then the version sets have
  changed and the active-version pointers have not.
\<close>

theorem mutators_atomic:
  "(fst (setVersion sheetName version this) = Throws e
      \<longrightarrow> snd (setVersion sheetName version this) = this)
   \<and> (schemas this sheetName = None \<and> \<not> inherited sheetName
      \<longrightarrow> addField eventBus sheetName fieldName headerName newVer this
            = (Throws (Error (''Sheet schema not found: '' @ sheetName)), this))
   \<and> (fst (addField eventBus sheetName fieldName headerName newVer this) = Throws e'
        \<and> snd (addField eventBus sheetName fieldName headerName newVer this) \<noteq> this
      \<longrightarrow> emit eventBus ''SCHEMA_UPDATED''
             \<lparr> ev_sheet = sheetName,
               ev_oldVersion = plainGet (currentVersions this sheetName) sheetName,
               ev_newVersion = newVer, ev_added = fieldName \<rparr> = Some e'
          \<and> currentVersions (snd (addField eventBus sheetName fieldName headerName newVer this))
              = currentVersions this)"
proof (intro conjI impI)
  assume "fst (setVersion sheetName version this) = Throws e"
  then show "snd (setVersion sheetName version this) = this"
    by (rule setVersion_throws_state)
next
  assume "schemas this sheetName = None \<and> \<not> inherited sheetName"
  then show "addField eventBus sheetName fieldName headerName newVer this
            = (Throws (Error (''Sheet schema not found: '' @ sheetName)), this)"
    by (simp add: addField_unknown)
next
  assume a: "fst (addField eventBus sheetName fieldName headerName newVer this) = Throws e'
        \<and> snd (addField eventBus sheetName fieldName headerName newVer this) \<noteq> this"
  then obtain vs where vs: "schemas this sheetName = Some vs"
    by (cases "schemas this sheetName") (auto simp: addField_def tableGet_def)
  show "emit eventBus ''SCHEMA_UPDATED''
             \<lparr> ev_sheet = sheetName,
               ev_oldVersion = plainGet (currentVersions this sheetName) sheetName,
               ev_newVersion = newVer, ev_added = fieldName \<rparr> = Some e'"
    using a addField_known(2) [OF vs, of eventBus fieldName headerName newVer]
    by (auto split: option.splits)
next
  show "currentVersions (snd (addField eventBus sheetName fieldName headerName newVer this))
              = currentVersions this"
    by (rule addField_pointers)
qed

lemma plain_names:
  "\<not> inherited ''BehaviorScores''" "\<not> inherited ''Nope''" "\<not> inherited ''v1''"
  "\<not> inherited ''v2''" "\<not> inherited ''v9''" "\<not> inherited []" "inherited ''constructor''"
  "inherited ''__proto__''"
  by (simp_all add: inherited_cases)

lemma behaviorRegistry_fields:
  "schemas behaviorRegistry ''BehaviorScores'' = Some (oneVersion ''v1'' behaviorSchema)"
  "currentVersions behaviorRegistry ''BehaviorScores'' = Some ''v1''"
  "schemas behaviorRegistry ''Nope'' = None" "schemas behaviorRegistry ''constructor'' = None"
  "schemas behaviorRegistry ''__proto__'' = None"
  by (simp_all add: behaviorRegistry_def)

lemma Object_set_streak:
  "Object_set behaviorSchema ''streak'' ''Streak'' = behaviorSchema @ [(''streak'', ''Streak'')]"
  by (simp add: Object_set_def behaviorSchema_def array_index_def is_digit_def)


text \<open>
  The theorem at the initial registry: \<open>setVersion\<close> to a version that does not exist,
  \<open>addField\<close> on an unknown sheet, and \<open>addField\<close> with \<open>EventBus\<close> being \<open>null\<close>.
\<close>

theorem mutators_atomic_witness:
  "fst (setVersion ''BehaviorScores'' ''v9'' behaviorRegistry)
      = Throws (Error ''Schema version v9 not found for sheet: BehaviorScores'')
   \<and> snd (setVersion ''BehaviorScores'' ''v9'' behaviorRegistry) = behaviorRegistry
   \<and> schemas behaviorRegistry ''Nope'' = None \<and> \<not> inherited ''Nope''
   \<and> addField BusNull ''Nope'' ''streak'' ''Streak'' ''v2'' behaviorRegistry
      = (Throws (Error ''Sheet schema not found: Nope''), behaviorRegistry)
   \<and> fst (addField BusNull ''BehaviorScores'' ''streak'' ''Streak'' ''v2'' behaviorRegistry)
      = Throws (TypeError ''Cannot read properties of null'')
   \<and> snd (addField BusNull ''BehaviorScores'' ''streak'' ''Streak'' ''v2'' behaviorRegistry)
      \<noteq> behaviorRegistry
   \<and> emit BusNull ''SCHEMA_UPDATED''
        \<lparr> ev_sheet = ''BehaviorScores'', ev_oldVersion = Str ''v1'',
          ev_newVersion = ''v2'', ev_added = ''streak'' \<rparr>
      = Some (TypeError ''Cannot read properties of null'')"
proof -
  have a: "fst (setVersion ''BehaviorScores'' ''v9'' behaviorRegistry)
      = Throws (Error ''Schema version v9 not found for sheet: BehaviorScores'')"
    by (simp add: setVersion_def tableGet_def tableRead_def behaviorRegistry_fields
        versionLookup_def oneVersion_def plain_names truthy_def)
  have b: "fst (addField BusNull ''BehaviorScores'' ''streak'' ''Streak'' ''v2'' behaviorRegistry)
      = Throws (TypeError ''Cannot read properties of null'')"
    by (simp add: addField_known(2) [OF behaviorRegistry_fields(1)] emit_def)
  have "schemas (snd (addField BusNull ''BehaviorScores'' ''streak'' ''Streak'' ''v2'' behaviorRegistry))
          ''BehaviorScores'' \<noteq> schemas behaviorRegistry ''BehaviorScores''"
    by (simp add: addField_known(1) [OF behaviorRegistry_fields(1)] behaviorRegistry_fields
        versionStore_def oneVersion_def fun_eq_iff)
  then have c: "snd (addField BusNull ''BehaviorScores'' ''streak'' ''Streak'' ''v2'' behaviorRegistry)
      \<noteq> behaviorRegistry" by auto
  show ?thesis
    using mutators_atomic [where sheetName = "''BehaviorScores''" and version = "''v9''"
        and this = behaviorRegistry and eventBus = BusNull and fieldName = "''streak''"
        and headerName = "''Streak''" and newVer = "''v2''"
        and e = "Error ''Schema version v9 not found for sheet: BehaviorScores''"
        and e' = "TypeError ''Cannot read properties of null''"]
      mutators_atomic [where sheetName = "''Nope''" and this = behaviorRegistry
        and eventBus = BusNull and fieldName = "''streak''"
        and headerName = "''Streak''" and newVer = "''v2''"]
      a b c
    by (simp add: behaviorRegistry_fields plain_names plainGet_def)
qed

text \<open>
  The claim as stated fails when \<open>EventBus\<close> is \<open>null\<close>: the \<open>typeof\<close> test passes, the
  call of \<open>emit\<close> throws a \<open>TypeError\<close>, and the new version is stored already.
\<close>

theorem addField_sink_counterexample:
  "fst (addField BusNull ''BehaviorScores'' ''streak'' ''Streak'' ''v2'' behaviorRegistry)
      = Throws (TypeError ''Cannot read properties of null'')
   \<and> versionStored
        (snd (addField BusNull ''BehaviorScores'' ''streak'' ''Streak'' ''v2'' behaviorRegistry))
        ''BehaviorScores'' ''v2''
   \<and> \<not> versionStored behaviorRegistry ''BehaviorScores'' ''v2''"
  by (simp add: addField_known [OF behaviorRegistry_fields(1)] emit_def versionStored_def
      behaviorRegistry_fields versionStore_def oneVersion_def)

subsection \<open>The active version and the versions\<close>













subsection \<open>Switching the active version\<close>




subsection \<open>Adding a field\<close>

lemma versionLookup_store:
  "versionLookup (versionStore vs k s) k
     = (if k = ''__proto__'' \<and> own vs k = None
           \<and> (case proto vs of None \<Rightarrow> True | Some p \<Rightarrow> Object_get p k = None)
           \<and> Object_get s k \<noteq> None
        then Str (the (Object_get s k)) else SchemaObj s)"
  by (auto simp: versionLookup_def versionStore_def split: option.splits)

lemma versionLookup_store_other:
  "k \<noteq> ''__proto__'' \<Longrightarrow> own vs k' \<noteq> None \<Longrightarrow>
   versionLookup (versionStore vs k s) k' = (if k' = k then SchemaObj s else versionLookup vs k')"
  by (auto simp: versionLookup_def versionStore_def split: option.splits)

text \<open>
  C9 (amended). Let \<open>addField\<close> be called with the table's active version as the new
  version, that version not being the empty string, and, if it is \<open>__proto__\<close>, neither
  the added field nor a field of the copied schema being named \<open>__proto__\<close>. Then the
  schema under the active version is replaced by the extended copy, whether or not the
  event sink throws, and \<open>addField\<close> returns when the sink does not throw; \<open>getSchema\<close> and
  \<open>getHeaders\<close> give the extended copy and its headers with no call of \<open>setVersion\<close>; the
  added field and its header are among them.
\<close>

theorem addField_on_active_version:
  assumes "schemas this sheetName = Some vs"
    and "currentVersions this sheetName = Some newVer"
    and "newVer \<noteq> []"
    and "newVer = ''__proto__'' \<longrightarrow>
           fieldName \<noteq> ''__proto__'' \<and> Object_get (spread (versionLookup vs newVer)) ''__proto__'' = None"
  shows "\<exists>extended this'.
           extended = Object_set (spread (versionLookup vs newVer)) fieldName headerName
           \<and> this' = this \<lparr> schemas := (schemas this)
                               (sheetName \<mapsto> versionStore vs newVer extended) \<rparr>
           \<and> snd (addField eventBus sheetName fieldName headerName newVer this) = this'
           \<and> (emit eventBus ''SCHEMA_UPDATED''
                 \<lparr> ev_sheet = sheetName, ev_oldVersion = Str newVer,
                   ev_newVersion = newVer, ev_added = fieldName \<rparr> = None
               \<longrightarrow> (\<exists>effects. fst (addField eventBus sheetName fieldName headerName newVer this)
                                = Returns effects))
           \<and> getSchema sheetName this' = (Returns (SchemaObj extended), this')
           \<and> getHeaders sheetName this' = (Returns (Object_values extended), this')
           \<and> Object_get extended fieldName = Some headerName
           \<and> headerName \<in> set (Object_values extended)"
proof -
  define extended where
    "extended = Object_set (spread (versionLookup vs newVer)) fieldName headerName"
  define this' where
    "this' = this \<lparr> schemas := (schemas this)(sheetName \<mapsto> versionStore vs newVer extended) \<rparr>"
  have 1: "snd (addField eventBus sheetName fieldName headerName newVer this) = this'"
    using assms(2)
    by (simp add: addField_known(1) [OF assms(1)] this'_def extended_def plainGet_def ToString_def)
  have 2: "emit eventBus ''SCHEMA_UPDATED''
                 \<lparr> ev_sheet = sheetName, ev_oldVersion = Str newVer,
                   ev_newVersion = newVer, ev_added = fieldName \<rparr> = None
               \<longrightarrow> (\<exists>effects. fst (addField eventBus sheetName fieldName headerName newVer this)
                                = Returns effects)"
    using assms(2) by (simp add: addField_known(2) [OF assms(1)] plainGet_def)
  have noproto: "newVer = ''__proto__'' \<longrightarrow> Object_get extended ''__proto__'' = None"
    using assms(4) by (auto simp: extended_def Object_get_set)
  have "versionLookup (versionStore vs newVer extended) newVer = SchemaObj extended"
    using noproto by (auto simp: versionLookup_store)
  then have 3: "getSchema sheetName this' = (Returns (SchemaObj extended), this')"
    using getSchema_own [of this' sheetName newVer "versionStore vs newVer extended"] assms(2,3)
    by (simp add: this'_def)
  then have 4: "getHeaders sheetName this' = (Returns (Object_values extended), this')"
    by (simp add: getHeaders_of_schema)
  have 5: "Object_get extended fieldName = Some headerName"
    by (simp add: extended_def Object_get_set)
  have 6: "headerName \<in> set (Object_values extended)"
    unfolding extended_def by (rule Object_values_set)
  show ?thesis
    apply (rule exI [of _ extended])
    apply (rule exI [of _ this'])
    using 1 2 3 4 5 6 extended_def this'_def apply simp
    done
qed

lemma Object_values_stringEntries: "Object_values (stringEntries s) = map (\<lambda>c. [c]) s"
proof -
  have "map (\<lambda>i. [s ! i]) [0..<length s] = map (\<lambda>c. [c]) (map ((!) s) [0..<length s])"
    by simp
  then show ?thesis
    by (simp add: Object_values_def stringEntries_def comp_def map_nth)
qed

text \<open>
  The theorem at the initial registry, with \<open>v1\<close> as the new version.
\<close>

theorem addField_on_active_version_witness:
  "schemas behaviorRegistry ''BehaviorScores'' = Some (oneVersion ''v1'' behaviorSchema)
   \<and> currentVersions behaviorRegistry ''BehaviorScores'' = Some ''v1''
   \<and> fst (addField BusUndefined ''BehaviorScores'' ''streak'' ''Streak'' ''v1'' behaviorRegistry)
       = Returns [ConsoleLog ([CHR ''['', CHR ''S''] @ ''chemaService] Added field ''
                    @ [CHR 0x27] @ ''streak'' @ [CHR 0x27]
                    @ '' to BehaviorScores schema version v1'')]
   \<and> fst (getHeaders ''BehaviorScores''
         (snd (addField BusUndefined ''BehaviorScores'' ''streak'' ''Streak'' ''v1'' behaviorRegistry)))
       = Returns [''Behavior'', ''Score'', ''Category'', ''Last Updated'', ''Streak'']"
proof -
  note a = behaviorRegistry_fields(1) and b = behaviorRegistry_fields(2)
  have c: "versionLookup (oneVersion ''v1'' behaviorSchema) ''v1'' = SchemaObj behaviorSchema"
    by (simp add: versionLookup_def oneVersion_def)
  have d: "fst (addField BusUndefined ''BehaviorScores'' ''streak'' ''Streak'' ''v1'' behaviorRegistry)
       = Returns [ConsoleLog ([CHR ''['', CHR ''S''] @ ''chemaService] Added field ''
                    @ [CHR 0x27] @ ''streak'' @ [CHR 0x27]
                    @ '' to BehaviorScores schema version v1'')]"
    by (simp add: addField_known(2) [OF a] emit_def emitted_def)
  show ?thesis
    using addField_on_active_version [OF a b, of "''streak''" "''Streak''" BusUndefined] a b c d
      Object_set_streak
    by (auto simp: spread_def ownEnumerable_def Object_entries_def Object_values_def
        behaviorSchema_def)
qed

text \<open>
  The claim as stated fails for the empty version name, under which \<open>getSchema\<close> and
  \<open>getHeaders\<close> throw, and for the version name \<open>__proto__\<close> with the added field named
  \<open>__proto__\<close> as well: \<open>getSchema\<close> then returns the header label, a string, and
  \<open>getHeaders\<close> its characters.
\<close>

theorem addField_active_version_counterexample:
  "currentVersions emptyVersionRegistry ''BehaviorScores'' = Some ''''
   \<and> fst (getSchema ''BehaviorScores''
           (snd (addField BusUndefined ''BehaviorScores'' ''notes'' ''Notes'' '''' emptyVersionRegistry)))
       = Throws (Error ''Schema not found for sheet: BehaviorScores'')
   \<and> fst (getHeaders ''BehaviorScores''
           (snd (addField BusUndefined ''BehaviorScores'' ''notes'' ''Notes'' '''' emptyVersionRegistry)))
       = Throws (Error ''Schema not found for sheet: BehaviorScores'')
   \<and> currentVersions (snd (setVersion ''BehaviorScores'' ''__proto__'' behaviorRegistry))
        ''BehaviorScores'' = Some ''__proto__''
   \<and> fst (getSchema ''BehaviorScores''
           (snd (addField BusUndefined ''BehaviorScores'' ''__proto__'' ''Label'' ''__proto__''
                   (snd (setVersion ''BehaviorScores'' ''__proto__'' behaviorRegistry)))))
       = Returns (Str ''Label'')
   \<and> fst (getHeaders ''BehaviorScores''
           (snd (addField BusUndefined ''BehaviorScores'' ''__proto__'' ''Label'' ''__proto__''
                   (snd (setVersion ''BehaviorScores'' ''__proto__'' behaviorRegistry)))))
       = Returns [''L'', ''a'', ''b'', ''e'', ''l'']"
proof -
  have e: "emptyVersionRegistry
     = \<lparr> schemas = [''BehaviorScores'' \<mapsto>
            \<lparr> own = [''v1'' \<mapsto> behaviorSchema, '''' \<mapsto> behaviorSchema @ [(''streak'', ''Streak'')]],
              proto = None \<rparr>],
         currentVersions = [''BehaviorScores'' \<mapsto> ''''] \<rparr>"
    by (simp add: emptyVersionRegistry_def setVersion_def tableGet_def tableRead_def Let_def
      addField_known(1) [OF behaviorRegistry_fields(1)] Object_set_streak spread_def
      ownEnumerable_def Object_entries_def
      versionLookup_def versionStore_def truthy_def
      behaviorRegistry_fields plainGet_def ToString_def)
      (simp add: behaviorRegistry_def oneVersion_def Object_entries_def Object_set_streak)
  have s: "snd (setVersion ''BehaviorScores'' ''__proto__'' behaviorRegistry)
     = behaviorRegistry \<lparr> currentVersions := [''BehaviorScores'' \<mapsto> ''__proto__''] \<rparr>"
    by (simp add: setVersion_def tableGet_def tableRead_def Let_def versionLookup_def truthy_def
        behaviorRegistry_fields oneVersion_def plain_names)
      (simp add: behaviorRegistry_def)
  have p: "Object_set [] ''__proto__'' ''Label'' = [(''__proto__'', ''Label'')]"
    by (simp add: Object_set_def array_index_def is_digit_def)
  show ?thesis
    apply (simp add: e s)
    apply (simp add: addField_def tableGet_def Let_def emit_def emitted_def getHeaders_def
        getSchema_def tableRead_def plainGet_def truthy_def ToString_def versionLookup_def
        versionStore_def behaviorRegistry_def oneVersion_def inherited_cases spread_def
        ownEnumerable_def p Object_get_def valuesOf_def Object_values_stringEntries)
    done
qed





section \<open>Decoding a row\<close>

lemma mapHeader_get:
  "Object_get (mapHeader R row (n, x) acc) k =
     (if truthy (Object_lookup R (trim x)) \<and> ToString (Object_lookup R (trim x)) = k
         \<and> Array_get row n \<noteq> None \<and> (k \<noteq> ''__proto__'' \<or> k \<in> fst ` set acc)
      then Array_get row n else Object_get acc k)"
  by (auto simp: mapHeader_def Let_def Object_get_assign split: option.splits)

lemma mapHeader_no_proto:
  "Object_get acc ''__proto__'' = None \<Longrightarrow> Object_get (mapHeader R row ih acc) ''__proto__'' = None"
  by (cases ih) (auto simp: mapHeader_get Object_get_dom)

lemma fold_mapHeader_no_proto:
  "Object_get acc ''__proto__'' = None \<Longrightarrow>
   Object_get (fold (mapHeader R row) ihs acc) ''__proto__'' = None"
  by (induction ihs arbitrary: acc) (simp_all add: mapHeader_no_proto)

lemma writes_old: "i < length hs \<Longrightarrow> writes R row (hs @ [x]) k i = writes R row hs k i"
  by (simp add: writes_def nth_append)

lemma writes_new:
  "writes R row (hs @ [x]) k (length hs) \<longleftrightarrow>
     truthy (Object_lookup R (trim x)) \<and> ToString (Object_lookup R (trim x)) = k
     \<and> Array_get row (length hs) \<noteq> None"
  by (simp add: writes_def)

lemma lastHit_keep:
  assumes "i < length hs"
  shows "lastHit R row (hs @ [x]) k v i \<longleftrightarrow>
           lastHit R row hs k v i \<and> \<not> writes R row (hs @ [x]) k (length hs)"
proof
  assume p: "lastHit R row (hs @ [x]) k v i"
  then have p1: "writes R row hs k i" and p3: "Array_get row i = Some v"
    and p4: "\<And>j. i < j \<Longrightarrow> j < Suc (length hs) \<Longrightarrow> \<not> writes R row (hs @ [x]) k j"
    using assms by (simp_all add: lastHit_def writes_old)
  have "\<not> writes R row hs k j" if j: "i < j \<and> j < length hs" for j
    using p4 [of j] j by (simp add: writes_old)
  moreover have "\<not> writes R row (hs @ [x]) k (length hs)"
    using p4 [of "length hs"] assms by simp
  ultimately show "lastHit R row hs k v i \<and> \<not> writes R row (hs @ [x]) k (length hs)"
    using p1 p3 by (simp add: lastHit_def)
next
  assume p: "lastHit R row hs k v i \<and> \<not> writes R row (hs @ [x]) k (length hs)"
  then have p1: "writes R row hs k i" and p3: "Array_get row i = Some v"
    and p4: "\<And>j. i < j \<Longrightarrow> j < length hs \<Longrightarrow> \<not> writes R row hs k j"
    and p5: "\<not> writes R row (hs @ [x]) k (length hs)"
    by (simp_all add: lastHit_def)
  have "\<not> writes R row (hs @ [x]) k j" if j: "i < j \<and> j < length (hs @ [x])" for j
  proof (cases "j = length hs")
    case True
    then show ?thesis using p5 by simp
  next
    case False
    then have "j < length hs" using j by simp
    then show ?thesis using p4 [of j] j by (simp add: writes_old)
  qed
  then show "lastHit R row (hs @ [x]) k v i"
    using p1 p3 assms by (simp add: lastHit_def writes_old)
qed

lemma lastHit_new:
  "lastHit R row (hs @ [x]) k v (length hs) \<longleftrightarrow>
     writes R row (hs @ [x]) k (length hs) \<and> Array_get row (length hs) = Some v"
  by (auto simp: lastHit_def)

lemma mapped_last_wins:
  "Object_get (fold (mapHeader R row) (enumerate 0 hs) []) k = Some v \<longleftrightarrow>
     k \<noteq> ''__proto__'' \<and> (\<exists>i<length hs. lastHit R row hs k v i)"
proof (induction hs rule: rev_induct)
  case Nil
  show ?case by (simp add: Object_get_empty)
next
  case (snoc x hs)
  let ?n = "length hs"
  let ?acc = "fold (mapHeader R row) (enumerate 0 hs) []"
  let ?W = "writes R row (hs @ [x]) k ?n"
  have en: "fold (mapHeader R row) (enumerate 0 (hs @ [x])) [] = mapHeader R row (?n, x) ?acc"
    by (simp add: enumerate_append_eq)
  have clean: "Object_get ?acc ''__proto__'' = None"
    by (rule fold_mapHeader_no_proto) (simp add: Object_get_empty)
  then have nokey: "''__proto__'' \<notin> fst ` set ?acc" by (simp add: Object_get_dom)
  have split: "(\<exists>i<length (hs @ [x]). lastHit R row (hs @ [x]) k v i) \<longleftrightarrow>
       lastHit R row (hs @ [x]) k v ?n \<or> (\<exists>i<?n. lastHit R row (hs @ [x]) k v i)"
    by (simp only: length_append_singleton Ex_less_Suc)
  show ?case
  proof (cases "k = ''__proto__''")
    case True
    have "Object_get (mapHeader R row (?n, x) ?acc) ''__proto__'' = None"
      using clean by (rule mapHeader_no_proto)
    then show ?thesis using True by (simp add: en)
  next
    case False
    show ?thesis
    proof (cases ?W)
      case True
      then obtain v0 where v0: "Array_get row ?n = Some v0" by (auto simp: writes_new)
      have l: "Object_get (fold (mapHeader R row) (enumerate 0 (hs @ [x])) []) k = Some v0"
        using True v0 False by (simp add: en mapHeader_get writes_new)
      have "\<not> lastHit R row (hs @ [x]) k v i" if "i < ?n" for i
        using lastHit_keep [OF that, of R row x k v] True by simp
      then have "(\<exists>i<length (hs @ [x]). lastHit R row (hs @ [x]) k v i) \<longleftrightarrow> v0 = v"
        unfolding split lastHit_new using True v0 by auto
      then show ?thesis unfolding l using False by auto
    next
      case nw: False
      have l: "Object_get (fold (mapHeader R row) (enumerate 0 (hs @ [x])) []) k
                 = Object_get ?acc k"
        using nw by (auto simp add: en mapHeader_get writes_new)
      have a: "\<not> lastHit R row (hs @ [x]) k v ?n"
        unfolding lastHit_new using nw by auto
      have "lastHit R row (hs @ [x]) k v i \<longleftrightarrow> lastHit R row hs k v i" if "i < ?n" for i
        using lastHit_keep [OF that, of R row x k v] nw by auto
      then have b: "(\<exists>i<?n. lastHit R row (hs @ [x]) k v i) \<longleftrightarrow> (\<exists>i<?n. lastHit R row hs k v i)"
        by blast
      show ?thesis unfolding l split using a b snoc.IH False by simp
    qed
  qed
qed

lemma reverse_fold_sound:
  "Object_get (fold (\<lambda>(field, header) reverse. Object_assign reverse header field) es r0) k = Some f
   \<Longrightarrow> (f, k) \<in> set es \<or> Object_get r0 k = Some f"
proof (induction es arbitrary: r0)
  case Nil
  then show ?case by simp
next
  case (Cons e es)
  obtain field header where e: "e = (field, header)" by (cases e)
  from Cons.prems have
    "Object_get (fold (\<lambda>(field, header) reverse. Object_assign reverse header field) es
        (Object_assign r0 header field)) k = Some f"
    by (simp add: e)
  then have "(f, k) \<in> set es \<or> Object_get (Object_assign r0 header field) k = Some f"
    by (rule Cons.IH)
  then show ?case by (auto simp: e Object_get_assign split: if_splits)
qed

lemma reverse_fold_miss:
  "k \<notin> snd ` set es \<Longrightarrow>
   Object_get (fold (\<lambda>(field, header) reverse. Object_assign reverse header field) es r0) k
     = Object_get r0 k"
  by (induction es arbitrary: r0) (auto simp: Object_get_assign)

lemma reverse_fold_hit:
  "distinct (map snd es) \<Longrightarrow> (f, k) \<in> set es \<Longrightarrow> k \<noteq> ''__proto__'' \<Longrightarrow>
   Object_get (fold (\<lambda>(field, header) reverse. Object_assign reverse header field) es r0) k = Some f"
proof (induction es arbitrary: r0)
  case Nil
  then show ?case by simp
next
  case (Cons e es)
  obtain field header where e: "e = (field, header)" by (cases e)
  show ?case
  proof (cases "(f, k) \<in> set es")
    case True
    then show ?thesis using Cons by (simp add: e)
  next
    case False
    then have eq: "field = f" "header = k" using Cons.prems e by auto
    have "k \<notin> snd ` set es" using Cons.prems(1) by (simp add: e eq)
    then show ?thesis using Cons.prems(3) by (simp add: e eq reverse_fold_miss Object_get_assign)
  qed
qed

lemma Object_assign_no_proto:
  "Object_get r0 ''__proto__'' = None \<Longrightarrow> Object_get (Object_assign r0 k v) ''__proto__'' = None"
  by (auto simp: Object_get_assign Object_get_dom)

lemma reverse_fold_no_proto:
  "Object_get r0 ''__proto__'' = None \<Longrightarrow>
   Object_get (fold (\<lambda>(field, header) reverse. Object_assign reverse header field) es r0)
     ''__proto__'' = None"
proof (induction es arbitrary: r0)
  case Nil
  then show ?case by simp
next
  case (Cons e es)
  obtain field header where e: "e = (field, header)" by (cases e)
  have "Object_get (Object_assign r0 header field) ''__proto__'' = None"
    using Cons.prems by (rule Object_assign_no_proto)
  then show ?case using Cons.IH by (simp add: e)
qed

lemma getReverseSchema_sound:
  "Object_get (getReverseSchema (SchemaObj schema)) k = Some f \<Longrightarrow>
   (f, k) \<in> set (Object_entries schema) \<and> k \<noteq> ''__proto__''"
  using reverse_fold_sound [of "Object_entries schema" "[]" k f]
    reverse_fold_no_proto [of "[]" "Object_entries schema"]
  by (auto simp: getReverseSchema_def truthy_def ownEnumerable_def Object_get_empty)

lemma getReverseSchema_get:
  assumes "distinct (map snd schema)"
  shows "Object_get (getReverseSchema (SchemaObj schema)) k = Some f
           \<longleftrightarrow> (f, k) \<in> set (Object_entries schema) \<and> k \<noteq> ''__proto__''"
  using getReverseSchema_sound [of schema k f] reverse_fold_hit [OF assms, of f k "[]"]
  by (auto simp: getReverseSchema_def truthy_def ownEnumerable_def Object_entries_def)

lemma getReverseSchema_lookup:
  assumes "distinct (map snd schema)" and "(f, l) \<in> set (Object_entries schema)"
    and "l \<noteq> ''__proto__''"
  shows "Object_lookup (getReverseSchema (SchemaObj schema)) l = Str f"
  using getReverseSchema_get [OF assms(1), of l f] assms(2,3)
  by (simp add: Object_lookup_def plainGet_def)

lemma getReverseSchema_lookup_none:
  assumes "l \<notin> snd ` set (Object_entries schema) \<or> l = ''__proto__''"
  shows "Object_lookup (getReverseSchema (SchemaObj schema)) l
           = (if inherited l then Builtin l else Undefined)"
proof -
  have "Object_get (getReverseSchema (SchemaObj schema)) l = None"
  proof (cases "Object_get (getReverseSchema (SchemaObj schema)) l")
    case None
    then show ?thesis .
  next
    case (Some f)
    then have "(f, l) \<in> set (Object_entries schema) \<and> l \<noteq> ''__proto__''"
      by (rule getReverseSchema_sound)
    then show ?thesis using assms by force
  qed
  then show ?thesis by (simp add: Object_lookup_def plainGet_def)
qed

lemma mapRowToObject_of_schema:
  assumes "fst (getSchema sheetName this) = Returns v"
  shows "mapRowToObject sheetName headers rowData this
           = (Returns (fold (mapHeader (getReverseSchema v) rowData) (enumerate 0 headers) []), this)"
  using assms getSchema_state [of sheetName this]
  by (cases "getSchema sheetName this") (simp add: mapRowToObject_def)




lemma filter_distinct_nth:
  "distinct (filter P xs) \<Longrightarrow> i < j \<Longrightarrow> j < length xs \<Longrightarrow> xs ! i = xs ! j \<Longrightarrow> \<not> P (xs ! i)"
proof (induction xs arbitrary: i j)
  case Nil
  then show ?case by simp
next
  case (Cons a xs)
  show ?case
  proof (cases i)
    case 0
    then obtain j' where j': "j = Suc j'" using Cons.prems(2) by (cases j) auto
    then have "a = xs ! j'" and "j' < length xs" using Cons.prems 0 by auto
    then have "a \<in> set xs" by auto
    then show ?thesis using Cons.prems(1) 0 by auto
  next
    case (Suc i')
    then obtain j' where j': "j = Suc j'" using Cons.prems(2) by (cases j) auto
    have "distinct (filter P xs)" using Cons.prems(1) by (simp split: if_splits)
    then have "\<not> P (xs ! i')"
      using Cons.prems Suc j' by (intro Cons.IH [of i' j']) auto
    then show ?thesis using Suc by simp
  qed
qed

lemma label_field_unique:
  "distinct (map snd schema) \<Longrightarrow> (f, l) \<in> set schema \<Longrightarrow> (g, l) \<in> set schema \<Longrightarrow> f = g"
proof (induction schema)
  case Nil
  then show ?case by simp
next
  case (Cons e schema)
  then show ?case by (cases e) (auto simp: image_iff)
qed

lemma writes_simple:
  assumes "distinct (map snd schema)"
    and "[] \<notin> fst ` set schema"
    and "\<forall>i<length headers. inherited (trim (headers ! i)) \<and> Array_get rowData i \<noteq> None
           \<longrightarrow> trim (headers ! i) \<noteq> ''__proto__'' \<and> trim (headers ! i) \<in> snd ` set schema"
    and "i < length headers"
  shows "writes (getReverseSchema (SchemaObj schema)) rowData headers k i \<longleftrightarrow>
           (k, trim (headers ! i)) \<in> set (Object_entries schema) \<and> Array_get rowData i \<noteq> None"
proof (cases "Array_get rowData i = None")
  case True
  then show ?thesis by (simp add: writes_def)
next
  case False
  define l where "l = trim (headers ! i)"
  define R where "R = getReverseSchema (SchemaObj schema)"
  have inh: "inherited l \<longrightarrow> l \<noteq> ''__proto__'' \<and> l \<in> snd ` set schema"
    using assms(3,4) False unfolding l_def by blast
  have w: "writes R rowData headers k i \<longleftrightarrow> truthy (Object_lookup R l) \<and> ToString (Object_lookup R l) = k"
    using False by (simp add: writes_def l_def)
  have "writes R rowData headers k i \<longleftrightarrow> (k, l) \<in> set schema"
  proof (cases "l \<in> snd ` set schema \<and> l \<noteq> ''__proto__''")
    case True
    then obtain f where f: "(f, l) \<in> set schema" by force
    have look: "Object_lookup R l = Str f"
      unfolding R_def
    proof (rule getReverseSchema_lookup [OF assms(1)])
      show "(f, l) \<in> set (Object_entries schema)" using f by (simp add: Object_entries_def)
      show "l \<noteq> ''__proto__''" using True by simp
    qed
    have ne: "f \<noteq> []" using f assms(2) by force
    have "(k, l) \<in> set schema \<longleftrightarrow> k = f"
      using f label_field_unique [OF assms(1)] by blast
    then show ?thesis
      unfolding w look using ne by (simp add: truthy_def ToString_def eq_commute)
  next
    case nolabel: False
    have ni: "\<not> inherited l" using inh nolabel by blast
    have "l \<notin> snd ` set (Object_entries schema) \<or> l = ''__proto__''"
      using nolabel by (simp add: Object_entries_def)
    then have "Object_lookup R l = (if inherited l then Builtin l else Undefined)"
      unfolding R_def by (rule getReverseSchema_lookup_none)
    then have look: "Object_lookup R l = Undefined" using ni by simp
    have "l \<noteq> ''__proto__''" using ni inherited_proto by metis
    then have "l \<notin> snd ` set schema" using nolabel by blast
    then have "(k, l) \<notin> set schema" by force
    then show ?thesis unfolding w look by (simp add: truthy_def)
  qed
  then show ?thesis using False by (simp add: R_def l_def Object_entries_def)
qed

lemma lastHit_simple:
  assumes "distinct (map fst schema)" and "distinct (map snd schema)"
    and "[] \<notin> fst ` set schema"
    and "distinct (filter (\<lambda>h. h \<in> snd ` set schema) (map trim headers))"
    and "\<forall>i<length headers. inherited (trim (headers ! i)) \<and> Array_get rowData i \<noteq> None
           \<longrightarrow> trim (headers ! i) \<noteq> ''__proto__'' \<and> trim (headers ! i) \<in> snd ` set schema"
    and "i < length headers"
  shows "lastHit (getReverseSchema (SchemaObj schema)) rowData headers k v i \<longleftrightarrow>
           (k, trim (headers ! i)) \<in> set (Object_entries schema) \<and> Array_get rowData i = Some v"
proof
  assume "lastHit (getReverseSchema (SchemaObj schema)) rowData headers k v i"
  then show "(k, trim (headers ! i)) \<in> set (Object_entries schema) \<and> Array_get rowData i = Some v"
    using writes_simple [OF assms(2,3,5,6)] by (simp add: lastHit_def)
next
  assume a: "(k, trim (headers ! i)) \<in> set (Object_entries schema) \<and> Array_get rowData i = Some v"
  then have mem: "(k, trim (headers ! i)) \<in> set schema" by (simp add: Object_entries_def)
  have w: "writes (getReverseSchema (SchemaObj schema)) rowData headers k i"
    using writes_simple [OF assms(2,3,5,6)] a by simp
  have "\<not> writes (getReverseSchema (SchemaObj schema)) rowData headers k j"
    if j: "i < j \<and> j < length headers" for j
  proof
    assume "writes (getReverseSchema (SchemaObj schema)) rowData headers k j"
    then have "(k, trim (headers ! j)) \<in> set schema"
      using writes_simple [OF assms(2,3,5), of j] j by (simp add: Object_entries_def)
    then have "trim (headers ! j) = trim (headers ! i)"
      using mem assms(1) by (rule eq_key_imp_eq_value [rotated])
    then have eq: "map trim headers ! i = map trim headers ! j"
      using j assms(6) by simp
    have "\<not> (map trim headers ! i \<in> snd ` set schema)"
      using filter_distinct_nth [OF assms(4), of i j] j eq by simp
    moreover have "map trim headers ! i \<in> snd ` set schema"
      using mem assms(6) by force
    ultimately show False by simp
  qed
  then show "lastHit (getReverseSchema (SchemaObj schema)) rowData headers k v i"
    using a w by (simp add: lastHit_def)
qed

text \<open>
  C2 (amended). Take a table with an active schema whose header labels are pairwise
  distinct and whose field names are neither empty nor \<open>__proto__\<close>, and actual headers
  among whose trimmed forms no header label occurs twice, and of which every one that,
  trimmed, is a member of \<open>Object.prototype\<close> and has a present value is a label of the
  schema other than \<open>__proto__\<close>. Then \<open>mapRowToObject\<close> returns, leaving the registry as
  it was, the mapping that has \<open>field \<mapsto> rowValues[i]\<close> exactly when the trimmed header at
  position \<open>i\<close> is, as stored, the label of the field, and \<open>rowValues[i]\<close> is present. In
  particular, for the schema \<open>{f1:h1, f2:h2}\<close> whose labels have no white space at either
  end, the headers \<open>[h1,h2]\<close> and the row \<open>[v1,v2]\<close> give \<open>{f1:v1, f2:v2}\<close>. That the
  fields of the schema are pairwise distinct is what it means for the list to represent
  an object.
\<close>

theorem mapRowToObject_decodes:
  assumes "fst (getSchema sheetName this) = Returns (SchemaObj schema)"
    and "distinct (map fst schema)" and "distinct (map snd schema)"
    and "[] \<notin> fst ` set schema" and "''__proto__'' \<notin> fst ` set schema"
    and "distinct (filter (\<lambda>h. h \<in> snd ` set schema) (map trim headers))"
    and "\<forall>i<length headers. inherited (trim (headers ! i)) \<and> Array_get rowData i \<noteq> None
           \<longrightarrow> trim (headers ! i) \<noteq> ''__proto__'' \<and> trim (headers ! i) \<in> snd ` set schema"
  shows "\<exists>mapped. mapRowToObject sheetName headers rowData this = (Returns mapped, this)
           \<and> (\<forall>f v. Object_get mapped f = Some v \<longleftrightarrow>
                  (\<exists>i<length headers. (f, trim (headers ! i)) \<in> set (Object_entries schema)
                                      \<and> Array_get rowData i = Some v))
           \<and> (Object_entries schema = [(f1, h1), (f2, h2)] \<and> trim h1 = h1 \<and> trim h2 = h2
                \<and> headers = [h1, h2] \<and> rowData = [Some v1, Some v2]
              \<longrightarrow> Object_get mapped = [f1 \<mapsto> v1, f2 \<mapsto> v2])"
proof -
  define mapped where
    "mapped = fold (mapHeader (getReverseSchema (SchemaObj schema)) rowData) (enumerate 0 headers) []"
  have run: "mapRowToObject sheetName headers rowData this = (Returns mapped, this)"
    unfolding mapped_def by (rule mapRowToObject_of_schema [OF assms(1)])
  have field: "f \<noteq> ''__proto__''" if "(f, l) \<in> set (Object_entries schema)" for f l
    using that assms(5) by (force simp: Object_entries_def)
  have "(\<exists>i<length headers. lastHit (getReverseSchema (SchemaObj schema)) rowData headers f v i)
          \<longleftrightarrow> (\<exists>i<length headers. (f, trim (headers ! i)) \<in> set (Object_entries schema)
                                      \<and> Array_get rowData i = Some v)" for f v
    by (simp add: lastHit_simple [OF assms(2,3,4,6,7)] cong: conj_cong)
  then have char: "Object_get mapped f = Some v \<longleftrightarrow>
                  (\<exists>i<length headers. (f, trim (headers ! i)) \<in> set (Object_entries schema)
                                      \<and> Array_get rowData i = Some v)" for f v
    unfolding mapped_def mapped_last_wins using field by blast
  have part: "Object_get mapped = [f1 \<mapsto> v1, f2 \<mapsto> v2]"
    if p: "Object_entries schema = [(f1, h1), (f2, h2)] \<and> trim h1 = h1 \<and> trim h2 = h2
                \<and> headers = [h1, h2] \<and> rowData = [Some v1, Some v2]"
  proof (rule ext)
    fix f
    have sch: "schema = [(f1, h1), (f2, h2)]" using p by (simp add: Object_entries_def)
    have ne: "f1 \<noteq> f2" "h1 \<noteq> h2" using assms(2,3) sch by auto
    have hs: "headers = [h1, h2]" and rd: "rowData = [Some v1, Some v2]"
      and t1: "trim h1 = h1" and t2: "trim h2 = h2" using p by simp_all
    have "Object_get mapped f = Some v \<longleftrightarrow>
            ((f, h2) \<in> set schema \<and> v2 = v) \<or> ((f, h1) \<in> set schema \<and> v1 = v)" for v
      unfolding char by (simp add: hs rd t1 t2 Ex_less_Suc Array_get_def Object_entries_def)
    then have c: "Object_get mapped f = Some v \<longleftrightarrow> (f = f1 \<and> v = v1) \<or> (f = f2 \<and> v = v2)" for v
      using ne by (auto simp: sch)
    show "Object_get mapped f = [f1 \<mapsto> v1, f2 \<mapsto> v2] f"
    proof (cases "Object_get mapped f")
      case None
      then have "f \<noteq> f1" "f \<noteq> f2" using c [of v1] c [of v2] by auto
      then show ?thesis using None by simp
    next
      case (Some v)
      then show ?thesis using c [of v] ne by auto
    qed
  qed
  show ?thesis
  proof (intro exI [of _ mapped] conjI allI impI)
    show "mapRowToObject sheetName headers rowData this = (Returns mapped, this)"
      by (rule run)
  next
    fix f v
    show "Object_get mapped f = Some v \<longleftrightarrow>
            (\<exists>i<length headers. (f, trim (headers ! i)) \<in> set (Object_entries schema)
                                \<and> Array_get rowData i = Some v)"
      by (rule char)
  next
    assume "Object_entries schema = [(f1, h1), (f2, h2)] \<and> trim h1 = h1 \<and> trim h2 = h2
                \<and> headers = [h1, h2] \<and> rowData = [Some v1, Some v2]"
    then show "Object_get mapped = [f1 \<mapsto> v1, f2 \<mapsto> v2]"
      by (rule part)
  qed
qed

lemma getSchema_registryOf:
  "getSchema ''BehaviorScores'' (registryOf s) = (Returns (SchemaObj s), registryOf s)"
  by (simp add: getSchema_own [where version = "''v1''" and vs = "oneVersion ''v1'' s"]
      registryOf_def versionLookup_def oneVersion_def)

lemma mapRowToObject_registryOf:
  "mapRowToObject ''BehaviorScores'' headers rowData (registryOf s)
     = (Returns (fold (mapHeader (getReverseSchema (SchemaObj s)) rowData) (enumerate 0 headers) []),
        registryOf s)"
  by (rule mapRowToObject_of_schema) (simp add: getSchema_registryOf)

lemma plain_keys:
  "array_index ''Behavior'' = None" "array_index ''Score'' = None" "array_index ''Score '' = None"
  "array_index ''Category'' = None" "array_index ''Last Updated'' = None"
  "array_index ''behavior'' = None" "array_index ''score'' = None"
  "array_index ''category'' = None" "array_index ''lastUpdated'' = None"
  "array_index ''function Object() { [native code] }'' = None"
  "array_index ''[object Object]'' = None"
  by (simp_all add: array_index_def is_digit_def)

lemma getReverseSchema_behaviorSchema:
  "getReverseSchema (SchemaObj behaviorSchema)
     = [(''Behavior'', ''behavior''), (''Score'', ''score''), (''Category'', ''category''),
        (''Last Updated'', ''lastUpdated'')]"
  by (simp add: getReverseSchema_def truthy_def ownEnumerable_def Object_entries_def
      behaviorSchema_def Object_assign_def Object_set_def plain_keys)

lemma getReverseSchema_paddedSchema:
  "getReverseSchema (SchemaObj paddedSchema) = [(''Behavior'', ''behavior''), (''Score '', ''score'')]"
  by (simp add: getReverseSchema_def truthy_def ownEnumerable_def Object_entries_def
      paddedSchema_def Object_assign_def Object_set_def plain_keys)

lemma more_trim_examples:
  "trim ''Mood'' = ''Mood''" "trim ''  '' = []" "trim ''__proto__'' = ''__proto__''"
  by (simp_all add: trim_def is_ws_def)

lemma more_plain_names:
  "\<not> inherited ''Behavior''" "\<not> inherited ''Score''" "\<not> inherited ''Category''"
  "\<not> inherited ''Mood''" "\<not> inherited ''Last Updated''" "\<not> inherited ''Score ''"
  by (simp_all add: inherited_cases)

text \<open>
  The theorem at the initial registry, for a row with a padded header, an unknown header
  that occurs twice, a blank header that occurs twice, an empty value and an absent
  value; and its particular case for a schema of two fields.
\<close>

theorem mapRowToObject_decodes_witness:
  "fst (getSchema ''BehaviorScores'' behaviorRegistry) = Returns (SchemaObj behaviorSchema)
   \<and> distinct (map fst behaviorSchema) \<and> distinct (map snd behaviorSchema)
   \<and> [] \<notin> fst ` set behaviorSchema \<and> ''__proto__'' \<notin> fst ` set behaviorSchema
   \<and> map trim ['' Score '', ''Mood'', ''  '', ''Mood'', ''  '', ''Category'', ''Behavior'']
       = [''Score'', ''Mood'', [], ''Mood'', [], ''Category'', ''Behavior'']
   \<and> distinct (filter (\<lambda>h. h \<in> snd ` set behaviorSchema)
         (map trim ['' Score '', ''Mood'', ''  '', ''Mood'', ''  '', ''Category'', ''Behavior'']))
   \<and> filter (\<lambda>h. inherited (trim h))
         ['' Score '', ''Mood'', ''  '', ''Mood'', ''  '', ''Category'', ''Behavior''] = []
   \<and> mapRowToObject ''BehaviorScores''
         ['' Score '', ''Mood'', ''  '', ''Mood'', ''  '', ''Category'', ''Behavior'']
         [Some ''5'', Some ''ok'', Some ''x'', Some ''fine'', Some ''y'', Some '''', None]
         behaviorRegistry
       = (Returns [(''score'', ''5''), (''category'', '''')], behaviorRegistry)
   \<and> mapRowToObject ''BehaviorScores'' [''Behavior'', ''Score''] [Some ''Run'', Some ''5'']
         (registryOf [(''behavior'', ''Behavior''), (''score'', ''Score'')])
       = (Returns [(''behavior'', ''Run''), (''score'', ''5'')],
          registryOf [(''behavior'', ''Behavior''), (''score'', ''Score'')])
   \<and> Object_get [(''behavior'', ''Run''), (''score'', ''5'')]
       = [''behavior'' \<mapsto> ''Run'', ''score'' \<mapsto> ''5'']"
proof -
  let ?hs = "['' Score '', ''Mood'', ''  '', ''Mood'', ''  '', ''Category'', ''Behavior'']"
  let ?row = "[Some ''5'', Some ''ok'', Some ''x'', Some ''fine'', Some ''y'', Some '''', None]"
  let ?two = "[(''behavior'', ''Behavior''), (''score'', ''Score'')]"
  have a: "fst (getSchema ''BehaviorScores'' behaviorRegistry) = Returns (SchemaObj behaviorSchema)"
    by (simp add: getSchema_behaviorRegistry)
  have b: "distinct (map fst behaviorSchema)" and c: "distinct (map snd behaviorSchema)"
    and d: "[] \<notin> fst ` set behaviorSchema" and d': "''__proto__'' \<notin> fst ` set behaviorSchema"
    by (simp_all add: behaviorSchema_def)
  have t: "map trim ?hs = [''Score'', ''Mood'', [], ''Mood'', [], ''Category'', ''Behavior'']"
    by (simp add: trim_examples more_trim_examples)
  have e: "distinct (filter (\<lambda>h. h \<in> snd ` set behaviorSchema) (map trim ?hs))"
    unfolding t by (simp add: behaviorSchema_def)
  have f: "filter (\<lambda>h. inherited (trim h)) ?hs = []"
    by (simp add: trim_examples more_trim_examples plain_names more_plain_names)
  have g: "\<forall>i<length ?hs. inherited (trim (?hs ! i)) \<and> Array_get ?row i \<noteq> None
             \<longrightarrow> trim (?hs ! i) \<noteq> ''__proto__'' \<and> trim (?hs ! i) \<in> snd ` set behaviorSchema"
  proof (intro allI impI)
    fix i
    assume i: "i < length ?hs" and "inherited (trim (?hs ! i)) \<and> Array_get ?row i \<noteq> None"
    then have "?hs ! i \<in> set (filter (\<lambda>h. inherited (trim h)) ?hs)"
      using nth_mem [OF i] unfolding set_filter by blast
    then show "trim (?hs ! i) \<noteq> ''__proto__'' \<and> trim (?hs ! i) \<in> snd ` set behaviorSchema"
      unfolding f by simp
  qed
  have run: "mapRowToObject ''BehaviorScores'' ?hs ?row behaviorRegistry
       = (Returns [(''score'', ''5''), (''category'', '''')], behaviorRegistry)"
    using mapRowToObject_decodes [OF a b c d d' e g]
    by (simp add: mapRowToObject_of_schema [OF a] getReverseSchema_behaviorSchema mapHeader_def
        Object_lookup_def plainGet_def truthy_def ToString_def Object_assign_def
        Object_get_def Array_get_def Object_set_def plain_keys trim_examples more_trim_examples
        plain_names more_plain_names)
  have a2: "fst (getSchema ''BehaviorScores'' (registryOf ?two)) = Returns (SchemaObj ?two)"
    by (simp add: getSchema_registryOf)
  have g2: "\<forall>i<length [''Behavior'', ''Score''].
             inherited (trim ([''Behavior'', ''Score''] ! i))
               \<and> Array_get [Some ''Run'', Some ''5''] i \<noteq> None
             \<longrightarrow> trim ([''Behavior'', ''Score''] ! i) \<noteq> ''__proto__''
                 \<and> trim ([''Behavior'', ''Score''] ! i) \<in> snd ` set ?two"
    by (simp add: All_less_Suc trim_examples more_plain_names)
  have run2: "mapRowToObject ''BehaviorScores'' [''Behavior'', ''Score''] [Some ''Run'', Some ''5'']
         (registryOf ?two)
       = (Returns [(''behavior'', ''Run''), (''score'', ''5'')], registryOf ?two)"
    by (simp add: mapRowToObject_registryOf getReverseSchema_def truthy_def ownEnumerable_def
        Object_entries_def mapHeader_def
        Object_lookup_def plainGet_def ToString_def Object_assign_def
        Object_get_def Array_get_def Object_set_def plain_keys trim_examples)
  have h2: "distinct (map fst ?two)" "distinct (map snd ?two)" "[] \<notin> fst ` set ?two"
    "''__proto__'' \<notin> fst ` set ?two"
    "distinct (filter (\<lambda>h. h \<in> snd ` set ?two) (map trim [''Behavior'', ''Score'']))"
    by (simp_all add: trim_examples)
  obtain mapped where m: "mapRowToObject ''BehaviorScores'' [''Behavior'', ''Score'']
                    [Some ''Run'', Some ''5''] (registryOf ?two) = (Returns mapped, registryOf ?two)"
    and p: "Object_entries ?two = [(''behavior'', ''Behavior''), (''score'', ''Score'')]
              \<and> trim ''Behavior'' = ''Behavior'' \<and> trim ''Score'' = ''Score''
              \<and> [''Behavior'', ''Score''] = [''Behavior'', ''Score'']
              \<and> [Some ''Run'', Some ''5''] = [Some ''Run'', Some ''5'']
            \<longrightarrow> Object_get mapped = [''behavior'' \<mapsto> ''Run'', ''score'' \<mapsto> ''5'']"
    using mapRowToObject_decodes [OF a2 h2 g2, of "''behavior''" "''Behavior''" "''score''" "''Score''"
        "''Run''" "''5''"]
    by (elim exE conjE) (rule that)
  have "mapped = [(''behavior'', ''Run''), (''score'', ''5'')]"
    using m unfolding run2 by simp
  moreover have "Object_get mapped = [''behavior'' \<mapsto> ''Run'', ''score'' \<mapsto> ''5'']"
    using p by (simp add: trim_examples Object_entries_def)
  ultimately have trip: "Object_get [(''behavior'', ''Run''), (''score'', ''5'')]
       = [''behavior'' \<mapsto> ''Run'', ''score'' \<mapsto> ''5'']"
    by simp
  show ?thesis using a b c d d' t e f run run2 trip by simp
qed

text \<open>
  The claim as stated fails in each of these cases: a label that ends in a space is
  matched by no header, so the round trip loses its field; the unknown headers
  \<open>constructor\<close> and \<open>__proto__\<close> are not ignored; of a header that occurs twice the later
  value wins; of two fields with the same label only the later is filled; a field with
  the empty name and a field named \<open>__proto__\<close> are never filled.
\<close>

theorem mapRowToObject_decodes_counterexample:
  "fst (getSchema ''BehaviorScores'' paddedRegistry)
     = Returns (SchemaObj [(''behavior'', ''Behavior''), (''score'', ''Score '')])
   \<and> fst (mapRowToObject ''BehaviorScores'' [''Behavior'', ''Score ''] [Some ''Run'', Some ''5'']
           paddedRegistry)
       = Returns [(''behavior'', ''Run'')]
   \<and> fst (mapRowToObject ''BehaviorScores'' [''constructor''] [Some ''x''] behaviorRegistry)
       = Returns [(''function Object() { [native code] }'', ''x'')]
   \<and> fst (mapRowToObject ''BehaviorScores'' [''__proto__''] [Some ''x''] behaviorRegistry)
       = Returns [(''[object Object]'', ''x'')]
   \<and> fst (mapRowToObject ''BehaviorScores'' [''Score'', ''Score''] [Some ''1'', Some ''2'']
           behaviorRegistry)
       = Returns [(''score'', ''2'')]
   \<and> fst (mapRowToObject ''BehaviorScores'' [''Score''] [Some ''5'']
           (registryOf [(''score'', ''Score''), (''points'', ''Score'')]))
       = Returns [(''points'', ''5'')]
   \<and> fst (mapRowToObject ''BehaviorScores'' [''Score''] [Some ''5'']
           (registryOf [([], ''Score'')]))
       = Returns []
   \<and> fst (mapRowToObject ''BehaviorScores'' [''Score''] [Some ''5'']
           (registryOf [(''__proto__'', ''Score'')]))
       = Returns []"
proof -
  have a: "fst (getSchema ''BehaviorScores'' paddedRegistry)
     = Returns (SchemaObj [(''behavior'', ''Behavior''), (''score'', ''Score '')])"
    by (simp add: getSchema_paddedRegistry paddedSchema_def)
  have b: "fst (mapRowToObject ''BehaviorScores'' [''Behavior'', ''Score ''] [Some ''Run'', Some ''5'']
           paddedRegistry)
       = Returns [(''behavior'', ''Run'')]"
    by (simp add: mapRowToObject_def getSchema_paddedRegistry getReverseSchema_paddedSchema
        mapHeader_def Object_lookup_def plainGet_def truthy_def ToString_def Object_assign_def
        Object_get_def Array_get_def Object_set_def plain_keys trim_examples more_plain_names)
  have c: "fst (mapRowToObject ''BehaviorScores'' [''constructor''] [Some ''x''] behaviorRegistry)
       = Returns [(''function Object() { [native code] }'', ''x'')]"
    by (simp add: mapRowToObject_def getSchema_behaviorRegistry getReverseSchema_behaviorSchema
        mapHeader_def Object_lookup_def plainGet_def truthy_def ToString_def builtinToString_def
        Object_assign_def Object_get_def Array_get_def Object_set_def plain_keys trim_examples
        plain_names)
  have d: "fst (mapRowToObject ''BehaviorScores'' [''__proto__''] [Some ''x''] behaviorRegistry)
       = Returns [(''[object Object]'', ''x'')]"
    by (simp add: mapRowToObject_def getSchema_behaviorRegistry getReverseSchema_behaviorSchema
        mapHeader_def Object_lookup_def plainGet_def truthy_def ToString_def builtinToString_def
        Object_assign_def Object_get_def Array_get_def Object_set_def plain_keys more_trim_examples
        plain_names)
  have e: "fst (mapRowToObject ''BehaviorScores'' [''Score'', ''Score''] [Some ''1'', Some ''2'']
           behaviorRegistry)
       = Returns [(''score'', ''2'')]"
    by (simp add: mapRowToObject_def getSchema_behaviorRegistry getReverseSchema_behaviorSchema
        mapHeader_def Object_lookup_def plainGet_def truthy_def ToString_def
        Object_assign_def Object_get_def Array_get_def Object_set_def plain_keys trim_examples)
  have f: "fst (mapRowToObject ''BehaviorScores'' [''Score''] [Some ''5'']
           (registryOf [(''score'', ''Score''), (''points'', ''Score'')]))
       = Returns [(''points'', ''5'')]"
    by (simp add: mapRowToObject_registryOf getReverseSchema_def ownEnumerable_def
        Object_entries_def
        mapHeader_def Object_lookup_def plainGet_def truthy_def ToString_def
        Object_assign_def Object_get_def Array_get_def Object_set_def plain_keys trim_examples
        array_index_def is_digit_def)
  have g: "fst (mapRowToObject ''BehaviorScores'' [''Score''] [Some ''5'']
           (registryOf [([], ''Score'')]))
       = Returns []"
    by (simp add: mapRowToObject_registryOf getReverseSchema_def ownEnumerable_def
        Object_entries_def
        mapHeader_def Object_lookup_def plainGet_def truthy_def ToString_def
        Object_assign_def Object_get_def Array_get_def Object_set_def plain_keys trim_examples)
  have h: "fst (mapRowToObject ''BehaviorScores'' [''Score''] [Some ''5'']
           (registryOf [(''__proto__'', ''Score'')]))
       = Returns []"
    by (simp add: mapRowToObject_registryOf getReverseSchema_def ownEnumerable_def
        Object_entries_def
        mapHeader_def Object_lookup_def plainGet_def truthy_def ToString_def
        Object_assign_def Object_get_def Array_get_def Object_set_def plain_keys trim_examples)
  show ?thesis using a b c d e f g h by simp
qed








end
